theory Spec2Isabelle
  imports Complex_Main "HOL-Library.AList"
begin

section \<open>The ledger of the trading game (tac/platform/game.py)\<close>

text \<open>
  Python's dictionaries keep insertion order and the code enumerates them by
  position, so a dictionary is an association list whose keys are distinct.
  Python floats are idealised as real numbers: every sum, difference and
  quotient below is exact. A raised exception is a value of \<open>error\<close>.
\<close>

datatype error =
    AssertionError
  | KeyError
  | IndexError
  | ZeroDivisionError
  | NotFoundError
  | DuplicateLockError
  | AttributeError

definition dict_get :: "('k \<times> 'v) list \<Rightarrow> 'k \<Rightarrow> error + 'v" where
  "dict_get d k = (case map_of d k of None \<Rightarrow> Inl KeyError | Some v \<Rightarrow> Inr v)"

text \<open>
  \<open>round(x, n)\<close> of Python 3 rounds to the nearest multiple of \<open>10 ^ -n\<close>,
  a tie going to the even neighbour.
\<close>

definition py_round :: "real \<Rightarrow> nat \<Rightarrow> real" where
  "py_round x n =
     (let y = x * 10 ^ n;
          f = \<lfloor>y\<rfloor>;
          d = y - of_int f
      in of_int (if d < 1 / 2 then f
                 else if 1 / 2 < d then f + 1
                 else if even f then f else f + 1) / 10 ^ n)"

subsection \<open>Transactions\<close>

record Transaction =
  transaction_id :: string
  is_sender_buyer :: bool
  counterparty :: string
  amount :: real
  quantities_by_good_pbk :: "(string \<times> int) list"
  sender :: string

text \<open>
  Modelled from the spec: the class \<open>Transaction\<close> of tac/platform/protocol.py is
  not among the sources. Its fields are those of the wire form
  \<open>{transaction_id, is_sender_buyer, counterparty, amount, quantities_by_good_pbk, sender}\<close>
  (the signature is left out); the direction flag says whether the sender is the
  buyer, which is also what the worked example of \<open>settle_transaction\<close> shows.
\<close>

definition buyer_pbk :: "Transaction \<Rightarrow> string" where
  "buyer_pbk tx = (if is_sender_buyer tx then sender tx else counterparty tx)"

definition seller_pbk :: "Transaction \<Rightarrow> string" where
  "seller_pbk tx = (if is_sender_buyer tx then counterparty tx else sender tx)"

subsection \<open>Configuration and initialization\<close>

record GameConfiguration =
  nb_agents :: int
  nb_goods :: int
  tx_fee :: real
  agent_pbk_to_name :: "(string \<times> string) list"
  good_pbk_to_name :: "(string \<times> string) list"

definition agent_pbks :: "GameConfiguration \<Rightarrow> string list" where
  "agent_pbks c = map fst (agent_pbk_to_name c)"

definition agent_names :: "GameConfiguration \<Rightarrow> string list" where
  "agent_names c = map snd (agent_pbk_to_name c)"

definition good_pbks :: "GameConfiguration \<Rightarrow> string list" where
  "good_pbks c = map fst (good_pbk_to_name c)"

definition good_names :: "GameConfiguration \<Rightarrow> string list" where
  "good_names c = map snd (good_pbk_to_name c)"

text \<open>\<open>GameConfiguration._check_consistency\<close>: the conjunction of its assertions.\<close>

definition config_check_consistency :: "GameConfiguration \<Rightarrow> bool" where
  "config_check_consistency c \<longleftrightarrow>
     0 \<le> tx_fee c \<and> 1 < nb_agents c \<and> 1 < nb_goods c \<and>
     int (length (agent_pbks c)) = nb_agents c \<and>
     int (length (remdups (agent_names c))) = nb_agents c \<and>
     int (length (good_pbks c)) = nb_goods c \<and>
     int (length (remdups (good_names c))) = nb_goods c"

definition GameConfiguration_init ::
  "int \<Rightarrow> int \<Rightarrow> real \<Rightarrow> (string \<times> string) list \<Rightarrow> (string \<times> string) list
     \<Rightarrow> error + GameConfiguration" where
  "GameConfiguration_init na ng fee a2n g2n =
     (let c = \<lparr>nb_agents = na, nb_goods = ng, tx_fee = fee,
                agent_pbk_to_name = a2n, good_pbk_to_name = g2n\<rparr>
      in if config_check_consistency c then Inr c else Inl AssertionError)"

record GameInitialization =
  initial_money_amounts :: "real list"
  endowments :: "int list list"
  init_utility_params :: "real list list"
  eq_prices :: "real list"
  eq_good_holdings :: "real list list"
  eq_money_holdings :: "real list"

text \<open>
  \<open>GameInitialization._check_consistency\<close>. The assertions run in order; the
  fourth reads \<open>eq_good_holdings[0]\<close>, which raises IndexError on an empty list.
\<close>

definition init_check_consistency :: "GameInitialization \<Rightarrow> error + unit" where
  "init_check_consistency i =
     (if \<not> (\<forall>m \<in> set (initial_money_amounts i). 0 \<le> m) then Inl AssertionError
      else if \<not> (\<forall>row \<in> set (endowments i). \<forall>e \<in> set row. 0 < e) then Inl AssertionError
      else if \<not> (\<forall>row \<in> set (init_utility_params i). \<forall>e \<in> set row. 0 < e)
        then Inl AssertionError
      else if length (endowments i) \<noteq> length (initial_money_amounts i) then Inl AssertionError
      else if length (endowments i) \<noteq> length (init_utility_params i) then Inl AssertionError
      else (case eq_good_holdings i of
              [] \<Rightarrow> Inl IndexError
            | row0 # _ \<Rightarrow>
                if length (eq_prices i) \<noteq> length row0 then Inl AssertionError
                else if length (eq_good_holdings i) \<noteq> length (eq_money_holdings i)
                  then Inl AssertionError
                else if \<not> (\<forall>(row_e, row_u) \<in> set (zip (endowments i) (init_utility_params i)).
                            length row_e = length row_u)
                  then Inl AssertionError
                else Inr ()))"

definition GameInitialization_init ::
  "real list \<Rightarrow> int list list \<Rightarrow> real list list \<Rightarrow> real list \<Rightarrow> real list list \<Rightarrow> real list
     \<Rightarrow> error + GameInitialization" where
  "GameInitialization_init money endow util prices goods moneys =
     (let i = \<lparr>initial_money_amounts = money, endowments = endow,
                init_utility_params = util, eq_prices = prices,
                eq_good_holdings = goods, eq_money_holdings = moneys\<rparr>
      in case init_check_consistency i of Inl e \<Rightarrow> Inl e | Inr _ \<Rightarrow> Inr i)"

subsection \<open>Agent and good states\<close>

record AgentState =
  balance :: real
  utility_params :: "real list"
  current_holdings :: "int list"

definition AgentState_init :: "real \<Rightarrow> int list \<Rightarrow> real list \<Rightarrow> error + AgentState" where
  "AgentState_init money endowment params =
     (if length endowment = length params
      then Inr \<lparr>balance = money, utility_params = params, current_holdings = endowment\<rparr>
      else Inl AssertionError)"

record GoodState =
  price :: real

definition DEFAULT_PRICE :: real where
  "DEFAULT_PRICE = 0"

definition GoodState_init :: "real \<Rightarrow> error + GoodState" where
  "GoodState_init p = (if 0 \<le> p then Inr \<lparr>price = p\<rparr> else Inl AssertionError)"

subsection \<open>The game\<close>

record Game =
  configuration :: GameConfiguration
  initialization :: GameInitialization
  transactions :: "Transaction list"
  initial_agent_states :: "(string \<times> AgentState) list"
  agent_states :: "(string \<times> AgentState) list"
  good_states :: "(string \<times> GoodState) list"

text \<open>
  The agent states of \<open>Game.__init__\<close>: one per pair of
  \<open>zip(agent_pbks, range(nb_agents))\<close>, reading row \<open>i\<close> of the three tables.
\<close>

fun build_agent_states ::
  "GameInitialization \<Rightarrow> (string \<times> nat) list \<Rightarrow> error + (string \<times> AgentState) list" where
  "build_agent_states ini [] = Inr []"
| "build_agent_states ini ((pbk, i) # rest) =
     (if i < length (initial_money_amounts ini) \<and> i < length (endowments ini)
         \<and> i < length (init_utility_params ini)
      then (case AgentState_init (initial_money_amounts ini ! i) (endowments ini ! i)
                   (init_utility_params ini ! i) of
              Inl e \<Rightarrow> Inl e
            | Inr a \<Rightarrow>
                (case build_agent_states ini rest of
                   Inl e \<Rightarrow> Inl e
                 | Inr r \<Rightarrow> Inr ((pbk, a) # r)))
      else Inl IndexError)"

definition Game_init :: "GameConfiguration \<Rightarrow> GameInitialization \<Rightarrow> error + Game" where
  "Game_init c ini =
     (case build_agent_states ini (zip (agent_pbks c) [0 ..< nat (nb_agents c)]) of
        Inl e \<Rightarrow> Inl e
      | Inr sts \<Rightarrow>
          Inr \<lparr>configuration = c, initialization = ini, transactions = [],
               initial_agent_states = sts, agent_states = sts,
               good_states = map (\<lambda>g. (g, \<lparr>price = DEFAULT_PRICE\<rparr>)) (good_pbks c)\<rparr>)"

definition share_of_tx_fee :: "real \<Rightarrow> real" where
  "share_of_tx_fee fee = py_round (fee / 2) 2"

text \<open>
  The loop of \<open>is_transaction_valid\<close> over \<open>enumerate(quantities.values())\<close>:
  position \<open>good_id\<close> of the seller's holdings is read for every entry, whatever
  the sign of its quantity, and reading past the end raises IndexError.
\<close>

fun check_seller_holdings :: "int list \<Rightarrow> nat \<Rightarrow> int list \<Rightarrow> error + bool" where
  "check_seller_holdings seller_holdings good_id [] = Inr True"
| "check_seller_holdings seller_holdings good_id (bought_quantity # rest) =
     (if good_id < length seller_holdings
      then (if seller_holdings ! good_id < bought_quantity then Inr False
            else check_seller_holdings seller_holdings (Suc good_id) rest)
      else Inl IndexError)"

definition is_transaction_valid :: "Game \<Rightarrow> Transaction \<Rightarrow> error + bool" where
  "is_transaction_valid g tx =
     (case dict_get (agent_states g) (buyer_pbk tx) of
        Inl e \<Rightarrow> Inl e
      | Inr buyer_state \<Rightarrow>
          if balance buyer_state < amount tx + share_of_tx_fee (tx_fee (configuration g))
          then Inr False
          else (case dict_get (agent_states g) (seller_pbk tx) of
                  Inl e \<Rightarrow> Inl e
                | Inr seller_state \<Rightarrow>
                    check_seller_holdings (current_holdings seller_state) 0
                      (map snd (quantities_by_good_pbk tx))))"

text \<open>
  \<open>settle_transaction\<close> mutates the game in place, so an exception raised half-way
  leaves the writes made so far. The model returns the error, if any, together
  with the game as it is when the call ends.

  \<open>buyer_state\<close> and \<open>seller_state\<close> are references into \<open>agent_states\<close>; when buyer
  and seller are the same key they are the same object. Writing through the key
  in the association list gives the same result in both cases.
\<close>

definition add_holding :: "nat \<Rightarrow> int \<Rightarrow> AgentState \<Rightarrow> AgentState" where
  "add_holding good_id quantity st =
     st\<lparr>current_holdings := (current_holdings st)
           [good_id := current_holdings st ! good_id + quantity]\<rparr>"

definition holdings_in_range :: "(string \<times> AgentState) list \<Rightarrow> string \<Rightarrow> nat \<Rightarrow> bool" where
  "holdings_in_range sts pbk good_id =
     (case map_of sts pbk of None \<Rightarrow> False
      | Some st \<Rightarrow> good_id < length (current_holdings st))"

fun settle_loop ::
  "string \<Rightarrow> string \<Rightarrow> real \<Rightarrow> int \<Rightarrow> nat \<Rightarrow> (string \<times> int) list \<Rightarrow> Game
     \<Rightarrow> error option \<times> Game" where
  "settle_loop buyer seller amt nb_instances_traded good_id [] g = (None, g)"
| "settle_loop buyer seller amt nb_instances_traded good_id ((good_pbk, quantity) # rest) g =
     (if \<not> holdings_in_range (agent_states g) buyer good_id then (Some IndexError, g)
      else
        let g1 = g\<lparr>agent_states :=
                    AList.map_entry buyer (add_holding good_id quantity) (agent_states g)\<rparr>
        in if \<not> holdings_in_range (agent_states g1) seller good_id then (Some IndexError, g1)
           else
             let g2 = g1\<lparr>agent_states :=
                          AList.map_entry seller (add_holding good_id (- quantity))
                            (agent_states g1)\<rparr>
             in if 0 < quantity
                then (if nb_instances_traded = 0 then (Some ZeroDivisionError, g2)
                      else (case map_of (good_states g2) good_pbk of
                              None \<Rightarrow> (Some KeyError, g2)
                            | Some good_state \<Rightarrow>
                                settle_loop buyer seller amt nb_instances_traded (Suc good_id) rest
                                  (g2\<lparr>good_states :=
                                        AList.update good_pbk
                                          (good_state\<lparr>price := amt / real_of_int nb_instances_traded\<rparr>)
                                          (good_states g2)\<rparr>)))
                else settle_loop buyer seller amt nb_instances_traded (Suc good_id) rest g2)"

definition sub_balance :: "real \<Rightarrow> AgentState \<Rightarrow> AgentState" where
  "sub_balance d st = st\<lparr>balance := balance st - d\<rparr>"

definition add_balance :: "real \<Rightarrow> AgentState \<Rightarrow> AgentState" where
  "add_balance d st = st\<lparr>balance := balance st + d\<rparr>"

definition settle_transaction :: "Game \<Rightarrow> Transaction \<Rightarrow> error option \<times> Game" where
  "settle_transaction g tx =
     (case is_transaction_valid g tx of
        Inl e \<Rightarrow> (Some e, g)
      | Inr False \<Rightarrow> (Some AssertionError, g)
      | Inr True \<Rightarrow>
          let g0 = g\<lparr>transactions := transactions g @ [tx]\<rparr>;
              nb_instances_traded = sum_list (map snd (quantities_by_good_pbk tx))
          in (case settle_loop (buyer_pbk tx) (seller_pbk tx) (amount tx) nb_instances_traded 0
                     (quantities_by_good_pbk tx) g0 of
                (Some e, g') \<Rightarrow> (Some e, g')
              | (None, g') \<Rightarrow>
                  let share = share_of_tx_fee (tx_fee (configuration g'));
                      sts1 = AList.map_entry (buyer_pbk tx) (sub_balance (amount tx + share))
                               (agent_states g');
                      sts2 = AList.map_entry (seller_pbk tx) (add_balance (amount tx - share)) sts1
                  in (None, g'\<lparr>agent_states := sts2\<rparr>)))"

subsection \<open>A worked game\<close>

text \<open>
  Two agents and two goods with fee 1, after the doctest of \<open>settle_transaction\<close>:
  the sender \<open>a0\<close> buys one unit of \<open>g0\<close> from \<open>a1\<close> for 15.
\<close>

definition ex_config :: GameConfiguration where
  "ex_config = \<lparr>nb_agents = 2, nb_goods = 2, tx_fee = 1,
     agent_pbk_to_name = [(''a0'', ''n0''), (''a1'', ''n1'')],
     good_pbk_to_name = [(''g0'', ''G0''), (''g1'', ''G1'')]\<rparr>"

definition ex_init :: GameInitialization where
  "ex_init = \<lparr>initial_money_amounts = [20, 20], endowments = [[1, 1], [2, 1]],
     init_utility_params = [[20, 40], [10, 50]], eq_prices = [1, 2],
     eq_good_holdings = [[1, 1], [2, 1]], eq_money_holdings = [20, 20]\<rparr>"

definition ex_game :: Game where
  "ex_game = \<lparr>configuration = ex_config, initialization = ex_init, transactions = [],
     initial_agent_states =
       [(''a0'', \<lparr>balance = 20, utility_params = [20, 40], current_holdings = [1, 1]\<rparr>),
        (''a1'', \<lparr>balance = 20, utility_params = [10, 50], current_holdings = [2, 1]\<rparr>)],
     agent_states =
       [(''a0'', \<lparr>balance = 20, utility_params = [20, 40], current_holdings = [1, 1]\<rparr>),
        (''a1'', \<lparr>balance = 20, utility_params = [10, 50], current_holdings = [2, 1]\<rparr>)],
     good_states = [(''g0'', \<lparr>price = 0\<rparr>), (''g1'', \<lparr>price = 0\<rparr>)]\<rparr>"

definition ex_tx :: Transaction where
  "ex_tx = \<lparr>transaction_id = ''t0'', is_sender_buyer = True, counterparty = ''a1'',
     amount = 15, quantities_by_good_pbk = [(''g0'', 1), (''g1'', 0)], sender = ''a0''\<rparr>"

definition ex_tx_too_dear :: Transaction where
  "ex_tx_too_dear = ex_tx\<lparr>amount := 100\<rparr>"

subsection \<open>The validity condition as the specification words it\<close>

text \<open>
  The specification's reading of \<open>is_transaction_valid\<close>: the buyer can pay the
  amount and the fee share, and the seller holds enough of every good whose
  traded quantity is positive. A good's position is its position in the
  transaction's quantity mapping, as in the code.
\<close>

definition claimed_valid :: "Game \<Rightarrow> Transaction \<Rightarrow> bool" where
  "claimed_valid g tx =
     (case (map_of (agent_states g) (buyer_pbk tx), map_of (agent_states g) (seller_pbk tx)) of
        (Some b, Some s) \<Rightarrow>
          amount tx + share_of_tx_fee (tx_fee (configuration g)) \<le> balance b \<and>
          (\<forall>i < length (quantities_by_good_pbk tx).
             0 < snd (quantities_by_good_pbk tx ! i) \<longrightarrow>
             snd (quantities_by_good_pbk tx ! i) \<le> current_holdings s ! i)
      | _ \<Rightarrow> False)"

text \<open>
  In the worked game, \<open>a0\<close> first takes \<open>- 2\<close> units of \<open>g0\<close> from \<open>a1\<close>, that is,
  hands two units over, and is left holding \<open>- 1\<close>; then \<open>a1\<close> proposes an empty
  trade with \<open>a0\<close> as seller.
\<close>

definition ex_tx_giveback :: Transaction where
  "ex_tx_giveback = \<lparr>transaction_id = ''t1'', is_sender_buyer = True, counterparty = ''a1'',
     amount = 0, quantities_by_good_pbk = [(''g0'', - 2), (''g1'', 0)], sender = ''a0''\<rparr>"

definition ex_game_after_giveback :: Game where
  "ex_game_after_giveback = ex_game\<lparr>transactions := [ex_tx_giveback],
     agent_states :=
       [(''a0'', \<lparr>balance = 39 / 2, utility_params = [20, 40], current_holdings = [- 1, 1]\<rparr>),
        (''a1'', \<lparr>balance = 39 / 2, utility_params = [10, 50], current_holdings = [4, 1]\<rparr>)]\<rparr>"

definition ex_tx_nothing :: Transaction where
  "ex_tx_nothing = \<lparr>transaction_id = ''t2'', is_sender_buyer = True, counterparty = ''a0'',
     amount = 0, quantities_by_good_pbk = [(''g0'', 0), (''g1'', 0)], sender = ''a1''\<rparr>"

subsection \<open>The effects of a settlement, in closed form\<close>

text \<open>
  What a successful \<open>settle_transaction\<close> does, said without the loop: the traded
  quantities are added position by position to the buyer's holdings and
  subtracted from the seller's, the buyer pays the amount and the fee share, the
  seller receives the amount less the fee share, and every good of positive
  quantity gets the price \<open>amount / sum of the traded quantities\<close>.
\<close>

fun add_quantities :: "int list \<Rightarrow> int list \<Rightarrow> int list" where
  "add_quantities hs [] = hs"
| "add_quantities [] (q # qs) = []"
| "add_quantities (h # hs) (q # qs) = (h + q) # add_quantities hs qs"

definition traded :: "Transaction \<Rightarrow> int list" where
  "traded tx = map snd (quantities_by_good_pbk tx)"

definition buyer_effect :: "Transaction \<Rightarrow> real \<Rightarrow> AgentState \<Rightarrow> AgentState" where
  "buyer_effect tx share st =
     st\<lparr>balance := balance st - (amount tx + share),
        current_holdings := add_quantities (current_holdings st) (traded tx)\<rparr>"

definition seller_effect :: "Transaction \<Rightarrow> real \<Rightarrow> AgentState \<Rightarrow> AgentState" where
  "seller_effect tx share st =
     st\<lparr>balance := balance st + (amount tx - share),
        current_holdings := add_quantities (current_holdings st) (map uminus (traded tx))\<rparr>"

definition priced_goods :: "Transaction \<Rightarrow> string list" where
  "priced_goods tx = map fst (filter (\<lambda>(k, q). 0 < q) (quantities_by_good_pbk tx))"

definition price_effect :: "real \<Rightarrow> string list \<Rightarrow> (string \<times> GoodState) list \<Rightarrow> (string \<times> GoodState) list" where
  "price_effect p goods gs = map (\<lambda>(k, st). if k \<in> set goods then (k, st\<lparr>price := p\<rparr>) else (k, st)) gs"

definition settled :: "Game \<Rightarrow> Transaction \<Rightarrow> Game" where
  "settled g tx =
     (let share = share_of_tx_fee (tx_fee (configuration g)) in
      g\<lparr>transactions := transactions g @ [tx],
        agent_states :=
          AList.map_entry (seller_pbk tx) (seller_effect tx share)
            (AList.map_entry (buyer_pbk tx) (buyer_effect tx share) (agent_states g)),
        good_states :=
          price_effect (amount tx / real_of_int (sum_list (traded tx))) (priced_goods tx)
            (good_states g)\<rparr>)"

text \<open>The two halves of the loop of \<open>settle_transaction\<close>, for the proofs.\<close>

fun upd_from :: "nat \<Rightarrow> int list \<Rightarrow> int list \<Rightarrow> int list" where
  "upd_from i [] hs = hs"
| "upd_from i (q # qs) hs = upd_from (Suc i) qs (hs[i := hs ! i + q])"

fun hold_loop :: "string \<Rightarrow> string \<Rightarrow> nat \<Rightarrow> int list \<Rightarrow> (string \<times> AgentState) list \<Rightarrow> (string \<times> AgentState) list" where
  "hold_loop b s i [] sts = sts"
| "hold_loop b s i (q # qs) sts =
     hold_loop b s (Suc i) qs
       (AList.map_entry s (add_holding i (- q)) (AList.map_entry b (add_holding i q) sts))"

fun price_loop :: "real \<Rightarrow> (string \<times> int) list \<Rightarrow> (string \<times> GoodState) list \<Rightarrow> (string \<times> GoodState) list" where
  "price_loop p [] gs = gs"
| "price_loop p ((k, q) # rest) gs =
     price_loop p rest (if 0 < q then AList.update k \<lparr>price = p\<rparr> gs else gs)"

definition fits :: "(string \<times> AgentState) list \<Rightarrow> string \<Rightarrow> nat \<Rightarrow> bool" where
  "fits sts k n = (case map_of sts k of None \<Rightarrow> False | Some st \<Rightarrow> n \<le> length (current_holdings st))"


text \<open>The divisor of the price as the specification words it: the positive quantities only.\<close>

definition claimed_units :: "Transaction \<Rightarrow> int" where
  "claimed_units tx = sum_list (filter (\<lambda>q. 0 < q) (traded tx))"

definition ex_game_settled :: Game where
  "ex_game_settled = ex_game\<lparr>transactions := [ex_tx],
     agent_states :=
       [(''a0'', \<lparr>balance = 9 / 2, utility_params = [20, 40], current_holdings = [2, 1]\<rparr>),
        (''a1'', \<lparr>balance = 69 / 2, utility_params = [10, 50], current_holdings = [1, 1]\<rparr>)],
     good_states := [(''g0'', \<lparr>price = 15\<rparr>), (''g1'', \<lparr>price = 0\<rparr>)]\<rparr>"

definition ex_tx_mixed :: Transaction where
  "ex_tx_mixed = \<lparr>transaction_id = ''t3'', is_sender_buyer = True, counterparty = ''a1'',
     amount = 15, quantities_by_good_pbk = [(''g0'', 2), (''g1'', - 1)], sender = ''a0''\<rparr>"

definition ex_tx_handback :: Transaction where
  "ex_tx_handback = \<lparr>transaction_id = ''t5'', is_sender_buyer = True, counterparty = ''a1'',
     amount = 15, quantities_by_good_pbk = [(''g0'', 1), (''g1'', - 3)], sender = ''a0''\<rparr>"

definition ex_tx_zero_sum :: Transaction where
  "ex_tx_zero_sum = \<lparr>transaction_id = ''t4'', is_sender_buyer = True, counterparty = ''a1'',
     amount = 15, quantities_by_good_pbk = [(''g0'', 1), (''g1'', - 1)], sender = ''a0''\<rparr>"

subsection \<open>Totals over all agents\<close>

text \<open>
  The money and, for each position of the holdings vectors, the units held by
  all agents together. An agent whose vector is too short holds nothing there.
\<close>

definition total_balance :: "Game \<Rightarrow> real" where
  "total_balance g = sum_list (map (\<lambda>(pbk, st). balance st) (agent_states g))"

definition holding_at :: "nat \<Rightarrow> AgentState \<Rightarrow> int" where
  "holding_at j st = (if j < length (current_holdings st) then current_holdings st ! j else 0)"

definition total_holdings :: "Game \<Rightarrow> nat \<Rightarrow> int" where
  "total_holdings g j = sum_list (map (\<lambda>(pbk, st). holding_at j st) (agent_states g))"

text \<open>The worked game with a fee of 0.004, whose half rounds to 0.\<close>

definition ex_game_small_fee :: Game where
  "ex_game_small_fee = ex_game\<lparr>configuration := ex_config\<lparr>tx_fee := 4 / 1000\<rparr>\<rparr>"

subsection \<open>Serialization\<close>

text \<open>
  \<open>to_dict\<close> and \<open>from_dict\<close>. A dictionary with fixed keys is the tuple of its
  values. \<open>from_dict\<close> calls the constructors, which run their consistency
  checks again, builds a fresh game and settles the logged transactions in
  order; an exception of any of them ends it.

  Modelled from the spec: \<open>Transaction.to_dict\<close>, \<open>Transaction.from_dict\<close> and the
  equality of transactions are not among the sources. The dictionary of a
  transaction has the fields of the wire form (the signature left out), and two
  transactions are equal when their fields are.
\<close>

type_synonym configuration_dict =
  "int \<times> int \<times> real \<times> (string \<times> string) list \<times> (string \<times> string) list"

type_synonym initialization_dict =
  "real list \<times> int list list \<times> real list list \<times> real list \<times> real list list \<times> real list"

type_synonym transaction_dict =
  "string \<times> bool \<times> string \<times> real \<times> (string \<times> int) list \<times> string"

type_synonym game_dict =
  "configuration_dict \<times> initialization_dict \<times> transaction_dict list"

definition GameConfiguration_to_dict :: "GameConfiguration \<Rightarrow> configuration_dict" where
  "GameConfiguration_to_dict c =
     (nb_agents c, nb_goods c, tx_fee c, agent_pbk_to_name c, good_pbk_to_name c)"

fun GameConfiguration_from_dict :: "configuration_dict \<Rightarrow> error + GameConfiguration" where
  "GameConfiguration_from_dict (na, ng, fee, a2n, g2n) = GameConfiguration_init na ng fee a2n g2n"

definition GameInitialization_to_dict :: "GameInitialization \<Rightarrow> initialization_dict" where
  "GameInitialization_to_dict i =
     (initial_money_amounts i, endowments i, init_utility_params i, eq_prices i,
      eq_good_holdings i, eq_money_holdings i)"

fun GameInitialization_from_dict :: "initialization_dict \<Rightarrow> error + GameInitialization" where
  "GameInitialization_from_dict (money, endow, util, prices, goods, moneys) =
     GameInitialization_init money endow util prices goods moneys"

definition Transaction_to_dict :: "Transaction \<Rightarrow> transaction_dict" where
  "Transaction_to_dict tx =
     (transaction_id tx, is_sender_buyer tx, counterparty tx, amount tx,
      quantities_by_good_pbk tx, sender tx)"

fun Transaction_from_dict :: "transaction_dict \<Rightarrow> Transaction" where
  "Transaction_from_dict (tid, isb, cp, amt, qs, snd') =
     \<lparr>transaction_id = tid, is_sender_buyer = isb, counterparty = cp, amount = amt,
      quantities_by_good_pbk = qs, sender = snd'\<rparr>"

definition Game_to_dict :: "Game \<Rightarrow> game_dict" where
  "Game_to_dict g =
     (GameConfiguration_to_dict (configuration g),
      GameInitialization_to_dict (initialization g),
      map Transaction_to_dict (transactions g))"

fun replay :: "Game \<Rightarrow> transaction_dict list \<Rightarrow> error + Game" where
  "replay game [] = Inr game"
| "replay game (tx_dict # rest) =
     (case settle_transaction game (Transaction_from_dict tx_dict) of
        (Some e, _) \<Rightarrow> Inl e
      | (None, game') \<Rightarrow> replay game' rest)"

fun Game_from_dict :: "game_dict \<Rightarrow> error + Game" where
  "Game_from_dict (cd, idd, txs) =
     (case GameConfiguration_from_dict cd of
        Inl e \<Rightarrow> Inl e
      | Inr c \<Rightarrow>
          (case GameInitialization_from_dict idd of
             Inl e \<Rightarrow> Inl e
           | Inr i \<Rightarrow>
               (case Game_init c i of
                  Inl e \<Rightarrow> Inl e
                | Inr game \<Rightarrow> replay game txs)))"

text \<open>
  \<open>__eq__\<close> of games compares the configurations and the logs. Python compares
  dictionaries as sets of items.
\<close>

definition dict_eq :: "('k \<times> 'v) list \<Rightarrow> ('k \<times> 'v) list \<Rightarrow> bool" where
  "dict_eq a b \<longleftrightarrow> set a = set b"

definition GameConfiguration_eq :: "GameConfiguration \<Rightarrow> GameConfiguration \<Rightarrow> bool" where
  "GameConfiguration_eq c c' \<longleftrightarrow>
     nb_agents c = nb_agents c' \<and> nb_goods c = nb_goods c' \<and> tx_fee c = tx_fee c' \<and>
     dict_eq (agent_pbk_to_name c) (agent_pbk_to_name c') \<and>
     dict_eq (good_pbk_to_name c) (good_pbk_to_name c')"

definition Game_eq :: "Game \<Rightarrow> Game \<Rightarrow> bool" where
  "Game_eq g g' \<longleftrightarrow>
     GameConfiguration_eq (configuration g) (configuration g') \<and>
     transactions g = transactions g'"

text \<open>Settling a sequence of transactions one after the other.\<close>

fun settle_all :: "Game \<Rightarrow> Transaction list \<Rightarrow> error + Game" where
  "settle_all g [] = Inr g"
| "settle_all g (tx # txs) =
     (case settle_transaction g tx of
        (Some e, _) \<Rightarrow> Inl e
      | (None, g') \<Rightarrow> settle_all g' txs)"

section \<open>The negotiating agent (tac/agents/v2/base/behaviours.py)\<close>

subsection \<open>Scores and hypothetical states of an agent\<close>

text \<open>
  \<open>logarithmic_utility\<close> of tac/helpers/misc.py is not among the sources: the
  score is stated for any function \<open>lu\<close> of the utility parameters and the
  holdings, which may raise.
\<close>

definition get_score ::
  "(real list \<Rightarrow> int list \<Rightarrow> error + real) \<Rightarrow> AgentState \<Rightarrow> error + real" where
  "get_score lu st =
     (case lu (utility_params st) (current_holdings st) of
        Inl e \<Rightarrow> Inl e
      | Inr goods_score \<Rightarrow> Inr (goods_score + balance st))"

text \<open>
  \<open>check_transaction_is_consistent\<close>. The seller's loop is
  \<open>result = result and (holdings[good_id] >= quantity)\<close>: once \<open>result\<close> is false the
  right operand is not evaluated, so no index is read any more.
\<close>

fun check_goods_loop :: "int list \<Rightarrow> nat \<Rightarrow> int list \<Rightarrow> bool \<Rightarrow> error + bool" where
  "check_goods_loop holdings good_id [] result = Inr result"
| "check_goods_loop holdings good_id (quantity # rest) result =
     (if result
      then (if good_id < length holdings
            then check_goods_loop holdings (Suc good_id) rest (quantity \<le> holdings ! good_id)
            else Inl IndexError)
      else check_goods_loop holdings (Suc good_id) rest False)"

definition check_transaction_is_consistent ::
  "AgentState \<Rightarrow> Transaction \<Rightarrow> real \<Rightarrow> error + bool" where
  "check_transaction_is_consistent st tx fee =
     (if is_sender_buyer tx
      then Inr (amount tx + share_of_tx_fee fee \<le> balance st)
      else check_goods_loop (current_holdings st) 0 (map snd (quantities_by_good_pbk tx)) True)"

text \<open>
  \<open>AgentState.update\<close>: the balance first, then the holdings position by position;
  writing past the end of the holdings raises IndexError.
\<close>

fun update_holdings :: "bool \<Rightarrow> nat \<Rightarrow> int list \<Rightarrow> int list \<Rightarrow> error + int list" where
  "update_holdings is_buyer good_id [] holdings = Inr holdings"
| "update_holdings is_buyer good_id (quantity # rest) holdings =
     (if good_id < length holdings
      then update_holdings is_buyer (Suc good_id) rest
             (holdings[good_id := holdings ! good_id + (if is_buyer then quantity else - quantity)])
      else Inl IndexError)"

definition AgentState_update :: "AgentState \<Rightarrow> Transaction \<Rightarrow> real \<Rightarrow> error + AgentState" where
  "AgentState_update st tx fee =
     (let share = share_of_tx_fee fee;
          st1 = (if is_sender_buyer tx
                 then st\<lparr>balance := balance st - (amount tx + share)\<rparr>
                 else st\<lparr>balance := balance st + (amount tx - share)\<rparr>)
      in case update_holdings (is_sender_buyer tx) 0 (map snd (quantities_by_good_pbk tx))
                (current_holdings st1) of
           Inl e \<Rightarrow> Inl e
         | Inr holdings \<Rightarrow> Inr (st1\<lparr>current_holdings := holdings\<rparr>))"

text \<open>
  \<open>AgentState.apply\<close> copies the state (\<open>__copy__\<close> builds a new object from copies
  of both lists) and updates the copy, so the state it is called on is only
  read: the model takes a state and returns another.
\<close>

fun apply_transactions :: "AgentState \<Rightarrow> Transaction list \<Rightarrow> real \<Rightarrow> error + AgentState" where
  "apply_transactions new_state [] fee = Inr new_state"
| "apply_transactions new_state (tx # rest) fee =
     (case AgentState_update new_state tx fee of
        Inl e \<Rightarrow> Inl e
      | Inr st \<Rightarrow> apply_transactions st rest fee)"

definition get_score_diff_from_transaction ::
  "(real list \<Rightarrow> int list \<Rightarrow> error + real) \<Rightarrow> AgentState \<Rightarrow> Transaction \<Rightarrow> real \<Rightarrow> error + real" where
  "get_score_diff_from_transaction lu st tx fee =
     (case get_score lu st of
        Inl e \<Rightarrow> Inl e
      | Inr current_score \<Rightarrow>
          (case apply_transactions st [tx] fee of
             Inl e \<Rightarrow> Inl e
           | Inr new_state \<Rightarrow>
               (case get_score lu new_state of
                  Inl e \<Rightarrow> Inl e
                | Inr new_score \<Rightarrow> Inr (new_score - current_score))))"

subsection \<open>The belief state\<close>

text \<open>
  \<open>GoodPriceModel\<close> of tac/helpers/price_model.py is not among the sources: a price
  model is any type \<open>'pm\<close> with an operation \<open>pm_update is_accepted price\<close>.
\<close>

record 'pm WorldState =
  opponent_states :: "(string \<times> AgentState) list"
  good_price_models :: "(string \<times> 'pm) list"

definition update_price ::
  "(bool \<Rightarrow> real \<Rightarrow> 'pm \<Rightarrow> 'pm) \<Rightarrow> 'pm WorldState \<Rightarrow> string \<Rightarrow> real \<Rightarrow> bool
     \<Rightarrow> error + 'pm WorldState" where
  "update_price pm_update ws good_pbk p is_accepted =
     (let p' = py_round p 1
      in case map_of (good_price_models ws) good_pbk of
           None \<Rightarrow> Inl KeyError
         | Some good_price_model \<Rightarrow>
             Inr (ws\<lparr>good_price_models :=
                      AList.update good_pbk (pm_update is_accepted p' good_price_model)
                        (good_price_models ws)\<rparr>))"

fun update_prices ::
  "(bool \<Rightarrow> real \<Rightarrow> 'pm \<Rightarrow> 'pm) \<Rightarrow> 'pm WorldState \<Rightarrow> string list \<Rightarrow> real \<Rightarrow> bool
     \<Rightarrow> error + 'pm WorldState" where
  "update_prices pm_update ws [] p is_accepted = Inr ws"
| "update_prices pm_update ws (good_pbk # rest) p is_accepted =
     (case update_price pm_update ws good_pbk p is_accepted of
        Inl e \<Rightarrow> Inl e
      | Inr ws' \<Rightarrow> update_prices pm_update ws' rest p is_accepted)"

text \<open>
  \<open>_from_transaction_update_price\<close>. The list \<open>good_pbks\<close> holds every good of
  positive quantity as many times as its quantity. The loop runs over
  \<open>list(set(good_pbks))\<close>, whose order Python does not fix: \<open>set_order\<close> stands for
  it, and the properties below hold for every \<open>set_order\<close> that lists each
  element once. An exception in the loop loses the models updated so far with
  the state.
\<close>

definition bought_units :: "Transaction \<Rightarrow> string list" where
  "bought_units tx =
     concat (map (\<lambda>(good_pbk, quantity).
                    if 0 < quantity then replicate (nat quantity) good_pbk else [])
               (quantities_by_good_pbk tx))"

definition from_transaction_update_price ::
  "(string list \<Rightarrow> string list) \<Rightarrow> (bool \<Rightarrow> real \<Rightarrow> 'pm \<Rightarrow> 'pm) \<Rightarrow> 'pm WorldState
     \<Rightarrow> Transaction \<Rightarrow> bool \<Rightarrow> error + 'pm WorldState" where
  "from_transaction_update_price set_order pm_update ws tx is_accepted =
     (let good_pbks = bought_units tx
      in if length good_pbks = 0 then Inl ZeroDivisionError
         else update_prices pm_update ws (set_order good_pbks)
                (amount tx / real (length good_pbks)) is_accepted)"

definition update_on_declined_propose ::
  "(string list \<Rightarrow> string list) \<Rightarrow> (bool \<Rightarrow> real \<Rightarrow> 'pm \<Rightarrow> 'pm) \<Rightarrow> 'pm WorldState
     \<Rightarrow> Transaction \<Rightarrow> error + 'pm WorldState" where
  "update_on_declined_propose set_order pm_update ws tx =
     from_transaction_update_price set_order pm_update ws tx False"

definition update_on_initial_accept ::
  "(string list \<Rightarrow> string list) \<Rightarrow> (bool \<Rightarrow> real \<Rightarrow> 'pm \<Rightarrow> 'pm) \<Rightarrow> 'pm WorldState
     \<Rightarrow> Transaction \<Rightarrow> error + 'pm WorldState" where
  "update_on_initial_accept set_order pm_update ws tx =
     from_transaction_update_price set_order pm_update ws tx True"

text \<open>
  The handlers of behaviours.py call an update of the belief state by its name,
  with a transaction. \<open>WorldState_update name\<close> is that call, the name looked up as
  Python looks up an attribute: the class defines four updates, \<open>update_on_cfp\<close>
  and \<open>update_on_proposal\<close> (both are \<open>pass\<close>), \<open>update_on_declined_propose\<close> and
  \<open>update_on_initial_accept\<close>, and the lookup of any other update raises
  AttributeError before anything runs.
\<close>

definition WorldState_update ::
  "(string list \<Rightarrow> string list) \<Rightarrow> (bool \<Rightarrow> real \<Rightarrow> 'pm \<Rightarrow> 'pm) \<Rightarrow> string
     \<Rightarrow> 'pm WorldState \<Rightarrow> Transaction \<Rightarrow> error + 'pm WorldState" where
  "WorldState_update set_order pm_update name ws tx =
     (if name = ''update_on_cfp'' then Inr ws
      else if name = ''update_on_proposal'' then Inr ws
      else if name = ''update_on_declined_propose''
      then update_on_declined_propose set_order pm_update ws tx
      else if name = ''update_on_initial_accept''
      then update_on_initial_accept set_order pm_update ws tx
      else Inl AttributeError)"

definition is_set_order :: "(string list \<Rightarrow> string list) \<Rightarrow> bool" where
  "is_set_order set_order \<longleftrightarrow>
     (\<forall>xs. distinct (set_order xs) \<and> set (set_order xs) = set xs)"

subsection \<open>The lock manager\<close>

text \<open>
  Modelled from the spec: the lock manager (tac/agents/v2/base/lock_manager.py)
  is not among the sources. Section 4.3 of the specification gives it: locks
  keyed by transaction id, each taken as seller or as buyer; \<open>add_lock\<close> fails
  with DuplicateLockError on a known id; \<open>pop_lock\<close> removes a lock and does
  nothing when there is none; pending proposals and pending acceptances are
  keyed by dialogue and message id, and popping an absent key fails with
  NotFoundError.
\<close>

type_synonym dialogue_label = "int \<times> string \<times> string"

type_synonym pending = "(dialogue_label \<times> (int \<times> Transaction) list) list"

record LockManager =
  locks :: "(string \<times> bool \<times> Transaction) list"
  pending_tx_proposals :: pending
  pending_tx_acceptances :: pending

record Dialogue =
  dialogue_label :: dialogue_label
  is_seller :: bool

definition pending_lookup :: "pending \<Rightarrow> dialogue_label \<Rightarrow> int \<Rightarrow> Transaction option" where
  "pending_lookup p label msg =
     (case map_of p label of None \<Rightarrow> None | Some inner \<Rightarrow> map_of inner msg)"

definition pending_remove :: "pending \<Rightarrow> dialogue_label \<Rightarrow> int \<Rightarrow> pending" where
  "pending_remove p label msg = AList.map_entry label (AList.delete msg) p"

definition pending_insert :: "pending \<Rightarrow> dialogue_label \<Rightarrow> int \<Rightarrow> Transaction \<Rightarrow> pending" where
  "pending_insert p label msg tx =
     AList.update label
       (AList.update msg tx (case map_of p label of None \<Rightarrow> [] | Some inner \<Rightarrow> inner)) p"

definition add_lock :: "LockManager \<Rightarrow> Transaction \<Rightarrow> bool \<Rightarrow> error + LockManager" where
  "add_lock lm tx as_seller =
     (if transaction_id tx \<in> fst ` set (locks lm) then Inl DuplicateLockError
      else Inr (lm\<lparr>locks := locks lm @ [(transaction_id tx, as_seller, tx)]\<rparr>))"

definition pop_lock :: "LockManager \<Rightarrow> string \<Rightarrow> LockManager" where
  "pop_lock lm tx_id = lm\<lparr>locks := AList.delete tx_id (locks lm)\<rparr>"

definition pop_pending_proposal ::
  "LockManager \<Rightarrow> Dialogue \<Rightarrow> int \<Rightarrow> error + Transaction \<times> LockManager" where
  "pop_pending_proposal lm dialogue msg =
     (case pending_lookup (pending_tx_proposals lm) (dialogue_label dialogue) msg of
        None \<Rightarrow> Inl NotFoundError
      | Some tx \<Rightarrow>
          Inr (tx, lm\<lparr>pending_tx_proposals :=
                        pending_remove (pending_tx_proposals lm) (dialogue_label dialogue) msg\<rparr>))"

definition add_pending_acceptances ::
  "LockManager \<Rightarrow> Dialogue \<Rightarrow> int \<Rightarrow> Transaction \<Rightarrow> LockManager" where
  "add_pending_acceptances lm dialogue msg tx =
     lm\<lparr>pending_tx_acceptances :=
          pending_insert (pending_tx_acceptances lm) (dialogue_label dialogue) msg tx\<rparr>"

definition pop_pending_acceptances ::
  "LockManager \<Rightarrow> Dialogue \<Rightarrow> int \<Rightarrow> error + Transaction \<times> LockManager" where
  "pop_pending_acceptances lm dialogue msg =
     (case pending_lookup (pending_tx_acceptances lm) (dialogue_label dialogue) msg of
        None \<Rightarrow> Inl NotFoundError
      | Some tx \<Rightarrow>
          Inr (tx, lm\<lparr>pending_tx_acceptances :=
                        pending_remove (pending_tx_acceptances lm) (dialogue_label dialogue) msg\<rparr>))"

subsection \<open>The game instance of an agent\<close>

text \<open>
  Modelled from the spec: \<open>GameInstance\<close> (tac/agents/v2/base/game_instance.py) is
  not among the sources. It holds what the handlers read: the agent's own
  state, the game configuration, the lock manager, the belief state with the
  flag that says whether it is kept, and the identity of the controller.
  \<open>state_after_locks\<close> is the specification's locked state: the agent's state
  with every lock held for the given role applied. Its belief state is the
  \<open>WorldState\<close> of game.py, the only belief state among the sources.
\<close>

record 'pm GameInstance =
  agent_state :: AgentState
  game_configuration :: GameConfiguration
  lock_manager :: LockManager
  is_world_modeling :: bool
  world_state :: "'pm WorldState"
  controller_pbk :: string

definition locks_for_role :: "LockManager \<Rightarrow> bool \<Rightarrow> Transaction list" where
  "locks_for_role lm as_seller =
     map (\<lambda>(tx_id, role, tx). tx) (filter (\<lambda>(tx_id, role, tx). role = as_seller) (locks lm))"

definition state_after_locks :: "'pm GameInstance \<Rightarrow> bool \<Rightarrow> error + AgentState" where
  "state_after_locks gi as_seller =
     apply_transactions (agent_state gi) (locks_for_role (lock_manager gi) as_seller)
       (tx_fee (game_configuration gi))"

subsection \<open>Messages and handlers\<close>

text \<open>
  The messages of the OEF SDK, by their fields. A \<open>ByteMessage\<close> carries what
  \<open>Transaction.serialize\<close> returns; \<open>serialize\<close>, \<open>generate_transaction_id\<close> and
  \<open>Transaction.from_proposal\<close> are not among the sources. The first two are
  parameters. Modelled from the spec: a proposal gives a price and the
  quantities of the goods, and the transaction built from it takes them as its
  amount and its quantities.
\<close>

record Proposal =
  proposal_price :: real
  proposal_quantities :: "(string \<times> int) list"

datatype 'b message =
    Accept (msg_id: int) (dialogue_id: int) (destination: string) (target: int)
  | Decline (msg_id: int) (dialogue_id: int) (destination: string) (target: int)
  | Propose (msg_id: int) (dialogue_id: int) (destination: string) (target: int)
      (proposals: "Proposal list")
  | ByteMessage (msg_id: int) (dialogue_id: int) (destination: string) (payload: 'b)

datatype 'b response = Single "'b message" | Several "'b message list"

definition from_proposal ::
  "Proposal \<Rightarrow> string \<Rightarrow> bool \<Rightarrow> string \<Rightarrow> string \<Rightarrow> Transaction" where
  "from_proposal proposal tx_id is_buyer cp sndr =
     \<lparr>transaction_id = tx_id, is_sender_buyer = is_buyer, counterparty = cp,
      amount = proposal_price proposal,
      quantities_by_good_pbk = proposal_quantities proposal, sender = sndr\<rparr>"

text \<open>
  The state of a behaviour: the public key of its \<open>crypto\<close> and its game
  instance. A handler returns its response and the state it leaves.
  \<open>on_propose\<close> can raise only before its first write, and its model keeps the
  exception only. \<open>on_decline\<close> and \<open>on_accept\<close> can raise after they have popped a
  pending proposal, so their models return the exception together with the
  state it leaves behind.
\<close>

record 'pm FIPABehaviour =
  public_key :: string
  game_instance :: "'pm GameInstance"

record ('b, 'pm) collaborators =
  logarithmic_utility :: "real list \<Rightarrow> int list \<Rightarrow> error + real"
  generate_transaction_id :: "string \<Rightarrow> string \<Rightarrow> int \<Rightarrow> bool \<Rightarrow> string"
  serialize :: "Transaction \<Rightarrow> 'b"
  pm_update :: "bool \<Rightarrow> real \<Rightarrow> 'pm \<Rightarrow> 'pm"
  set_order :: "string list \<Rightarrow> string list"

definition is_profitable_transaction ::
  "('b, 'pm) collaborators \<Rightarrow> 'pm FIPABehaviour \<Rightarrow> Transaction \<Rightarrow> Dialogue \<Rightarrow> error + bool" where
  "is_profitable_transaction env self tx dialogue =
     (case state_after_locks (game_instance self) (is_seller dialogue) of
        Inl e \<Rightarrow> Inl e
      | Inr locked \<Rightarrow>
          (case check_transaction_is_consistent locked tx
                  (tx_fee (game_configuration (game_instance self))) of
             Inl e \<Rightarrow> Inl e
           | Inr False \<Rightarrow> Inr False
           | Inr True \<Rightarrow>
               (case get_score_diff_from_transaction (logarithmic_utility env) locked tx
                       (tx_fee (game_configuration (game_instance self))) of
                  Inl e \<Rightarrow> Inl e
                | Inr proposal_delta_score \<Rightarrow> Inr (0 \<le> proposal_delta_score))))"

definition with_lock_manager :: "'pm FIPABehaviour \<Rightarrow> LockManager \<Rightarrow> 'pm FIPABehaviour" where
  "with_lock_manager self lm = self\<lparr>game_instance := (game_instance self)\<lparr>lock_manager := lm\<rparr>\<rparr>"

definition with_world_state :: "'pm FIPABehaviour \<Rightarrow> 'pm WorldState \<Rightarrow> 'pm FIPABehaviour" where
  "with_world_state self ws = self\<lparr>game_instance := (game_instance self)\<lparr>world_state := ws\<rparr>\<rparr>"

definition on_propose ::
  "('b, 'pm) collaborators \<Rightarrow> 'pm FIPABehaviour \<Rightarrow> 'b message \<Rightarrow> Dialogue
     \<Rightarrow> error + 'b message \<times> 'pm FIPABehaviour" where
  "on_propose env self propose dialogue =
     (case proposals propose of
        [] \<Rightarrow> Inl IndexError
      | proposal # _ \<Rightarrow>
          let tx_id = generate_transaction_id env (public_key self) (destination propose)
                        (dialogue_id propose) (is_seller dialogue);
              tx = from_proposal proposal tx_id (\<not> is_seller dialogue) (destination propose)
                     (public_key self);
              new_msg_id = msg_id propose + 1
          in case is_profitable_transaction env self tx dialogue of
               Inl e \<Rightarrow> Inl e
             | Inr True \<Rightarrow>
                 (case add_lock (lock_manager (game_instance self)) tx (is_seller dialogue) of
                    Inl e \<Rightarrow> Inl e
                  | Inr lm \<Rightarrow>
                      Inr (Accept new_msg_id (dialogue_id propose) (destination propose)
                             (msg_id propose),
                           with_lock_manager self
                             (add_pending_acceptances lm dialogue new_msg_id tx)))
             | Inr False \<Rightarrow>
                 Inr (Decline new_msg_id (dialogue_id propose) (destination propose)
                        (msg_id propose), self))"

definition on_decline ::
  "('b, 'pm) collaborators \<Rightarrow> 'pm FIPABehaviour \<Rightarrow> 'b message \<Rightarrow> Dialogue
     \<Rightarrow> error option \<times> 'pm FIPABehaviour" where
  "on_decline env self decline dialogue =
     (case (if is_world_modeling (game_instance self)
            then (case pending_lookup (pending_tx_proposals (lock_manager (game_instance self)))
                         (dialogue_label dialogue) (target decline) of
                    None \<Rightarrow> (None, self)
                  | Some _ \<Rightarrow>
                      (case pop_pending_proposal (lock_manager (game_instance self)) dialogue
                              (target decline) of
                         Inl e \<Rightarrow> (Some e, self)
                       | Inr (tx, lm) \<Rightarrow>
                           (case WorldState_update (set_order env) (pm_update env)
                                   ''update_on_decline'' (world_state (game_instance self)) tx of
                              Inl e \<Rightarrow> (Some e, with_lock_manager self lm)
                            | Inr ws \<Rightarrow> (None, with_world_state (with_lock_manager self lm) ws))))
            else (None, self)) of
        (Some e, self1) \<Rightarrow> (Some e, self1)
      | (None, self1) \<Rightarrow>
          let tx_id = generate_transaction_id env (public_key self1) (destination decline)
                        (dialogue_id decline) (is_seller dialogue)
          in if tx_id \<in> fst ` set (locks (lock_manager (game_instance self1)))
             then (None, with_lock_manager self1 (pop_lock (lock_manager (game_instance self1)) tx_id))
             else (None, self1))"

definition on_match_accept ::
  "('b, 'pm) collaborators \<Rightarrow> 'pm FIPABehaviour \<Rightarrow> 'b message \<Rightarrow> Dialogue
     \<Rightarrow> (error + 'b response) \<times> 'pm FIPABehaviour" where
  "on_match_accept env self accept dialogue =
     (case pop_pending_acceptances (lock_manager (game_instance self)) dialogue (target accept) of
        Inl e \<Rightarrow> (Inl e, self)
      | Inr (tx, lm) \<Rightarrow>
          (Inr (Single (ByteMessage (msg_id accept + 1) (dialogue_id accept)
                          (controller_pbk (game_instance self)) (serialize env tx))),
           with_lock_manager self lm))"

definition on_initial_accept ::
  "('b, 'pm) collaborators \<Rightarrow> 'pm FIPABehaviour \<Rightarrow> 'b message \<Rightarrow> Dialogue
     \<Rightarrow> (error + 'b response) \<times> 'pm FIPABehaviour" where
  "on_initial_accept env self accept dialogue =
     (case pop_pending_proposal (lock_manager (game_instance self)) dialogue (target accept) of
        Inl e \<Rightarrow> (Inl e, self)
      | Inr (tx, lm) \<Rightarrow>
          let self1 = with_lock_manager self lm;
              new_msg_id = msg_id accept + 1
          in case is_profitable_transaction env self1 tx dialogue of
               Inl e \<Rightarrow> (Inl e, self1)
             | Inr True \<Rightarrow>
                 (case (if is_world_modeling (game_instance self1)
                        then WorldState_update (set_order env) (pm_update env)
                               ''update_on_accept'' (world_state (game_instance self1)) tx
                        else Inr (world_state (game_instance self1))) of
                    Inl e \<Rightarrow> (Inl e, self1)
                  | Inr ws \<Rightarrow>
                      let self2 = with_world_state self1 ws
                      in (case add_lock (lock_manager (game_instance self2)) tx
                                 (is_seller dialogue) of
                            Inl e \<Rightarrow> (Inl e, self2)
                          | Inr lm2 \<Rightarrow>
                              (Inr (Several
                                      [ByteMessage new_msg_id (dialogue_id accept)
                                         (controller_pbk (game_instance self2)) (serialize env tx),
                                       Accept new_msg_id (dialogue_id accept) (destination accept)
                                         (msg_id accept)]),
                               with_lock_manager self2 lm2)))
             | Inr False \<Rightarrow>
                 (Inr (Single (Decline new_msg_id (dialogue_id accept) (destination accept)
                                 (msg_id accept))),
                  self1))"

definition on_accept ::
  "('b, 'pm) collaborators \<Rightarrow> 'pm FIPABehaviour \<Rightarrow> 'b message \<Rightarrow> Dialogue
     \<Rightarrow> (error + 'b response) \<times> 'pm FIPABehaviour" where
  "on_accept env self accept dialogue =
     (case pending_lookup (pending_tx_acceptances (lock_manager (game_instance self)))
             (dialogue_label dialogue) (target accept) of
        Some _ \<Rightarrow> on_match_accept env self accept dialogue
      | None \<Rightarrow> on_initial_accept env self accept dialogue)"

subsection \<open>Profitability as the specification words it\<close>

text \<open>
  The state a transaction leaves an agent in, and the consistency the
  specification asks for: the buying side can pay the amount and the fee share,
  or the selling side holds the traded quantities.
\<close>

definition applied :: "Transaction \<Rightarrow> real \<Rightarrow> AgentState \<Rightarrow> AgentState" where
  "applied tx fee st =
     (if is_sender_buyer tx then buyer_effect tx (share_of_tx_fee fee) st
      else seller_effect tx (share_of_tx_fee fee) st)"

definition consistent_as_claimed :: "AgentState \<Rightarrow> Transaction \<Rightarrow> real \<Rightarrow> bool" where
  "consistent_as_claimed st tx fee =
     (if is_sender_buyer tx then amount tx + share_of_tx_fee fee \<le> balance st
      else (\<forall>i < length (quantities_by_good_pbk tx).
              snd (quantities_by_good_pbk tx ! i) \<le> current_holdings st ! i))"

subsection \<open>A worked agent\<close>

text \<open>
  The agent \<open>a0\<close> of the worked game, with a linear stand-in for the utility and a
  price model that records its observations.
\<close>

definition ex_env :: "(string, (bool \<times> real) list) collaborators" where
  "ex_env = \<lparr>logarithmic_utility =
               (\<lambda>params holdings. Inr (sum_list (map2 (\<lambda>u h. u * real_of_int h) params holdings))),
             generate_transaction_id =
               (\<lambda>pbk cp did seller. pbk @ ''_'' @ cp @ (if seller then ''_s'' else ''_b'')),
             serialize = transaction_id,
             pm_update = (\<lambda>is_accepted p model. (is_accepted, p) # model),
             set_order = remdups\<rparr>"

definition ex_lock_manager :: LockManager where
  "ex_lock_manager = \<lparr>locks = [], pending_tx_proposals = [], pending_tx_acceptances = []\<rparr>"

definition ex_world_state :: "(bool \<times> real) list WorldState" where
  "ex_world_state = \<lparr>opponent_states = [], good_price_models = [(''g0'', []), (''g1'', [])]\<rparr>"

definition ex_self :: "(bool \<times> real) list FIPABehaviour" where
  "ex_self = \<lparr>public_key = ''a0'',
              game_instance =
                \<lparr>agent_state = \<lparr>balance = 20, utility_params = [20, 40], current_holdings = [1, 1]\<rparr>,
                 game_configuration = ex_config, lock_manager = ex_lock_manager,
                 is_world_modeling = True, world_state = ex_world_state,
                 controller_pbk = ''controller''\<rparr>\<rparr>"

definition ex_dialogue :: Dialogue where
  "ex_dialogue = \<lparr>dialogue_label = (7, ''a1'', ''a0''), is_seller = False\<rparr>"

definition ex_tx_nothing_for_money :: Transaction where
  "ex_tx_nothing_for_money = \<lparr>transaction_id = ''a0_a1_b'', is_sender_buyer = True,
     counterparty = ''a1'', amount = 15, quantities_by_good_pbk = [(''g0'', 0), (''g1'', 0)],
     sender = ''a0''\<rparr>"

definition ex_tx_cheap :: Transaction where
  "ex_tx_cheap = \<lparr>transaction_id = ''a0_a1_b'', is_sender_buyer = True,
     counterparty = ''a1'', amount = 15, quantities_by_good_pbk = [(''g0'', 1), (''g1'', 0)],
     sender = ''a0''\<rparr>"

definition ex_tx_bundle :: Transaction where
  "ex_tx_bundle = \<lparr>transaction_id = ''a0_a1_b'', is_sender_buyer = True,
     counterparty = ''a1'', amount = 10, quantities_by_good_pbk = [(''g0'', 2), (''g1'', 1)],
     sender = ''a0''\<rparr>"

subsection \<open>The price observation as the specification words it\<close>

text \<open>
  The belief state after a transaction was observed with the given outcome:
  the price model of every good of positive quantity is fed the amount divided
  by the number of units bought, rounded to 1 decimal; the others are left.
\<close>

definition price_observed ::
  "(bool \<Rightarrow> real \<Rightarrow> 'pm \<Rightarrow> 'pm) \<Rightarrow> 'pm WorldState \<Rightarrow> Transaction \<Rightarrow> bool \<Rightarrow> 'pm WorldState" where
  "price_observed update ws tx is_accepted =
     ws\<lparr>good_price_models :=
          map (\<lambda>(good_pbk, model).
                 if good_pbk \<in> set (priced_goods tx)
                 then (good_pbk,
                       update is_accepted
                         (py_round (amount tx / real_of_int (claimed_units tx)) 1) model)
                 else (good_pbk, model))
            (good_price_models ws)\<rparr>"

subsection \<open>Worked messages\<close>

definition ex_propose_nothing :: "string message" where
  "ex_propose_nothing =
     Propose 1 7 ''a1'' 0 [\<lparr>proposal_price = 15, proposal_quantities = [(''g0'', 0), (''g1'', 0)]\<rparr>]"

definition ex_self_proposed :: "(bool \<times> real) list FIPABehaviour" where
  "ex_self_proposed =
     with_lock_manager ex_self
       (ex_lock_manager\<lparr>pending_tx_proposals := [((7, ''a1'', ''a0''), [(2, ex_tx_cheap)])]\<rparr>)"

definition ex_self_proposed_nothing :: "(bool \<times> real) list FIPABehaviour" where
  "ex_self_proposed_nothing =
     with_lock_manager ex_self
       (ex_lock_manager\<lparr>pending_tx_proposals :=
          [((7, ''a1'', ''a0''), [(2, ex_tx_nothing_for_money)])]\<rparr>)"

definition ex_self_proposed_bundle :: "(bool \<times> real) list FIPABehaviour" where
  "ex_self_proposed_bundle =
     with_lock_manager ex_self
       (ex_lock_manager\<lparr>pending_tx_proposals := [((7, ''a1'', ''a0''), [(2, ex_tx_bundle)])]\<rparr>)"

definition ex_self_popped :: "(bool \<times> real) list FIPABehaviour" where
  "ex_self_popped =
     with_lock_manager ex_self
       (ex_lock_manager\<lparr>pending_tx_proposals := [((7, ''a1'', ''a0''), [])]\<rparr>)"

definition ex_self_proposed_no_belief :: "(bool \<times> real) list FIPABehaviour" where
  "ex_self_proposed_no_belief =
     ex_self_proposed\<lparr>game_instance := (game_instance ex_self_proposed)\<lparr>is_world_modeling := False\<rparr>\<rparr>"

definition ex_self_accepted :: "(bool \<times> real) list FIPABehaviour" where
  "ex_self_accepted =
     with_lock_manager ex_self
       (ex_lock_manager\<lparr>locks := [(''a0_a1_b'', False, ex_tx_cheap)],
                         pending_tx_acceptances := [((7, ''a1'', ''a0''), [(2, ex_tx_cheap)])]\<rparr>)"

definition ex_accept :: "string message" where
  "ex_accept = Accept 3 7 ''a1'' 2"

definition ex_decline :: "string message" where
  "ex_decline = Decline 3 7 ''a1'' 2"

section \<open>Properties of the ledger\<close>

lemma py_round_half: "py_round (1 / 2) 2 = 1 / 2"
  by (simp add: py_round_def Let_def)

lemma share_of_tx_fee_one: "share_of_tx_fee 1 = 1 / 2"
  by (simp add: share_of_tx_fee_def py_round_half)

lemma ex_game_constructed: "Game_init ex_config ex_init = Inr ex_game"
  by (simp add: Game_init_def ex_config_def ex_init_def ex_game_def agent_pbks_def
      good_pbks_def AgentState_init_def DEFAULT_PRICE_def upt_conv_Cons)

text \<open>
  C4. A transaction that \<open>is_transaction_valid\<close> rejects makes
  \<open>settle_transaction\<close> fail on its opening assertion (the failure the spec calls
  InvalidTransactionError is Python's AssertionError), and the game the call
  leaves behind is the game it was given: the log, every balance, every holding
  and every price are untouched.
\<close>

theorem settle_invalid_fails_unchanged:
  assumes "is_transaction_valid g tx = Inr False"
  shows "settle_transaction g tx = (Some AssertionError, g)"
  using assms by (simp add: settle_transaction_def)

theorem settle_invalid_fails_unchanged_witness:
  "is_transaction_valid ex_game ex_tx_too_dear = Inr False
   \<and> settle_transaction ex_game ex_tx_too_dear = (Some AssertionError, ex_game)"
proof -
  have invalid: "is_transaction_valid ex_game ex_tx_too_dear = Inr False"
    by (simp add: is_transaction_valid_def ex_game_def ex_tx_too_dear_def ex_tx_def
        ex_config_def dict_get_def buyer_pbk_def share_of_tx_fee_one)
  from settle_invalid_fails_unchanged [OF invalid] invalid show ?thesis by simp
qed

subsection \<open>Validity\<close>

lemma check_seller_holdings_all:
  "i + length qs \<le> length hs \<Longrightarrow>
   check_seller_holdings hs i qs = Inr (\<forall>j < length qs. qs ! j \<le> hs ! (i + j))"
proof (induction qs arbitrary: i)
  case Nil
  then show ?case by simp
next
  case (Cons q qs)
  then have "check_seller_holdings hs (Suc i) qs = Inr (\<forall>j < length qs. qs ! j \<le> hs ! (Suc i + j))"
    by simp
  with Cons.prems show ?case
    by (auto simp add: All_less_Suc2 not_less)
qed

lemma is_transaction_valid_every_good:
  assumes b: "map_of (agent_states g) (buyer_pbk tx) = Some b"
    and s: "map_of (agent_states g) (seller_pbk tx) = Some s"
    and len: "length (quantities_by_good_pbk tx) \<le> length (current_holdings s)"
  shows "is_transaction_valid g tx =
     Inr (amount tx + share_of_tx_fee (tx_fee (configuration g)) \<le> balance b \<and>
          (\<forall>i < length (quantities_by_good_pbk tx).
             snd (quantities_by_good_pbk tx ! i) \<le> current_holdings s ! i))"
  using len by (simp add: is_transaction_valid_def dict_get_def b s check_seller_holdings_all not_less)

lemma is_transaction_valid_nonneg_holdings:
  assumes b: "map_of (agent_states g) (buyer_pbk tx) = Some b"
    and s: "map_of (agent_states g) (seller_pbk tx) = Some s"
    and len: "length (quantities_by_good_pbk tx) \<le> length (current_holdings s)"
    and nonneg: "\<forall>h \<in> set (current_holdings s). 0 \<le> h"
  shows "is_transaction_valid g tx = Inr (claimed_valid g tx)"
proof -
  have "(\<forall>i < length (quantities_by_good_pbk tx).
             snd (quantities_by_good_pbk tx ! i) \<le> current_holdings s ! i)
       = (\<forall>i < length (quantities_by_good_pbk tx).
             0 < snd (quantities_by_good_pbk tx ! i) \<longrightarrow>
             snd (quantities_by_good_pbk tx ! i) \<le> current_holdings s ! i)"
    (is "?L = ?R")
  proof
    assume ?L then show ?R by simp
  next
    assume r: ?R
    show ?L
    proof (intro allI impI)
      fix i assume i: "i < length (quantities_by_good_pbk tx)"
      with len have "current_holdings s ! i \<in> set (current_holdings s)" by simp
      with nonneg have "0 \<le> current_holdings s ! i" by blast
      with r i show "snd (quantities_by_good_pbk tx ! i) \<le> current_holdings s ! i"
        by (cases "0 < snd (quantities_by_good_pbk tx ! i)") auto
    qed
  qed
  then show ?thesis
    by (simp add: is_transaction_valid_every_good [OF b s len] claimed_valid_def b s)
qed

text \<open>
  C2, as the code has it. When buyer and seller are agents of the game and the
  seller's holdings cover every position the transaction lists,
  \<open>is_transaction_valid\<close> returns true exactly when the buyer's balance is at
  least the amount plus the fee share (half the fee, rounded to 2 decimals) and
  the seller's holding at the position of every good listed in the transaction,
  whatever the sign of its quantity, is at least the traded quantity. This is
  the specification's condition (goods of positive quantity only) whenever no
  holding of the seller is negative. The function only reads: it returns a
  verdict and has no game to hand back.
\<close>

theorem is_transaction_valid_iff:
  assumes "map_of (agent_states g) (buyer_pbk tx) = Some b"
    and "map_of (agent_states g) (seller_pbk tx) = Some s"
    and "length (quantities_by_good_pbk tx) \<le> length (current_holdings s)"
  shows "is_transaction_valid g tx =
           Inr (amount tx + share_of_tx_fee (tx_fee (configuration g)) \<le> balance b \<and>
                (\<forall>i < length (quantities_by_good_pbk tx).
                   snd (quantities_by_good_pbk tx ! i) \<le> current_holdings s ! i))
         \<and> ((\<forall>h \<in> set (current_holdings s). 0 \<le> h) \<longrightarrow>
              is_transaction_valid g tx = Inr (claimed_valid g tx))"
  using assms is_transaction_valid_every_good is_transaction_valid_nonneg_holdings
  by blast

theorem is_transaction_valid_iff_witness:
  "map_of (agent_states ex_game) (buyer_pbk ex_tx) =
     Some \<lparr>balance = 20, utility_params = [20, 40], current_holdings = [1, 1]\<rparr>
   \<and> map_of (agent_states ex_game) (seller_pbk ex_tx) =
     Some \<lparr>balance = 20, utility_params = [10, 50], current_holdings = [2, 1]\<rparr>
   \<and> is_transaction_valid ex_game ex_tx = Inr True
   \<and> claimed_valid ex_game ex_tx"
proof -
  have b: "map_of (agent_states ex_game) (buyer_pbk ex_tx) =
     Some \<lparr>balance = 20, utility_params = [20, 40], current_holdings = [1, 1]\<rparr>"
    by (simp add: ex_game_def ex_tx_def buyer_pbk_def)
  have s: "map_of (agent_states ex_game) (seller_pbk ex_tx) =
     Some \<lparr>balance = 20, utility_params = [10, 50], current_holdings = [2, 1]\<rparr>"
    by (simp add: ex_game_def ex_tx_def seller_pbk_def)
  have len: "length (quantities_by_good_pbk ex_tx) \<le>
     length (current_holdings \<lparr>balance = 20, utility_params = [10, 50], current_holdings = [2, 1]\<rparr>)"
    by (simp add: ex_tx_def)
  have fee: "share_of_tx_fee (tx_fee (configuration ex_game)) = 1 / 2"
    by (simp add: ex_game_def ex_config_def share_of_tx_fee_one)
  have qs: "quantities_by_good_pbk ex_tx = [(''g0'', 1), (''g1'', 0)]" and am: "amount ex_tx = 15"
    by (simp_all add: ex_tx_def)
  note both = is_transaction_valid_iff [OF b s len]
  from both [THEN conjunct1]
  have v: "is_transaction_valid ex_game ex_tx = Inr True"
    by (simp add: fee qs am All_less_Suc)
  from both [THEN conjunct2]
  have c: "is_transaction_valid ex_game ex_tx = Inr (claimed_valid ex_game ex_tx)"
    by simp
  from c v have "claimed_valid ex_game ex_tx" by simp
  with b s v show ?thesis by simp
qed

text \<open>
  The specification's condition is not the code's on every game: after the valid
  settlement of \<open>ex_tx_giveback\<close> the agent \<open>a0\<close> holds \<open>- 1\<close> of \<open>g0\<close>, and the
  empty trade \<open>ex_tx_nothing\<close>, which has no positive quantity and which the
  buyer can pay for, is rejected by the code.
\<close>

theorem is_transaction_valid_positive_only_counterexample:
  "settle_transaction ex_game ex_tx_giveback = (None, ex_game_after_giveback)
   \<and> is_transaction_valid ex_game_after_giveback ex_tx_nothing = Inr False
   \<and> claimed_valid ex_game_after_giveback ex_tx_nothing"
proof -
  have "settle_transaction ex_game ex_tx_giveback = (None, ex_game_after_giveback)"
    by (simp add: settle_transaction_def is_transaction_valid_def ex_game_def ex_tx_giveback_def
        ex_game_after_giveback_def ex_config_def dict_get_def buyer_pbk_def seller_pbk_def
        share_of_tx_fee_one holdings_in_range_def add_holding_def add_balance_def
        sub_balance_def Let_def)
  moreover have "is_transaction_valid ex_game_after_giveback ex_tx_nothing = Inr False"
    by (simp add: is_transaction_valid_def ex_game_def ex_tx_nothing_def
        ex_game_after_giveback_def ex_config_def dict_get_def buyer_pbk_def seller_pbk_def
        share_of_tx_fee_one)
  moreover have "claimed_valid ex_game_after_giveback ex_tx_nothing"
    by (simp add: ex_game_def ex_tx_nothing_def ex_game_after_giveback_def ex_config_def
        buyer_pbk_def seller_pbk_def share_of_tx_fee_one claimed_valid_def All_less_Suc)
  ultimately show ?thesis by simp
qed

subsection \<open>Settlement\<close>

lemma map_entry_fuse: "AList.map_entry k f (AList.map_entry k g al) = AList.map_entry k (f \<circ> g) al"
  by (induction al) auto

lemma map_entry_commute:
  "k \<noteq> k' \<Longrightarrow> AList.map_entry k f (AList.map_entry k' g al) = AList.map_entry k' g (AList.map_entry k f al)"
  by (induction al) auto

lemma map_entry_ident: "(\<And>v. f v = v) \<Longrightarrow> AList.map_entry k f al = al"
  by (induction al) auto

lemma fits_map_entry_add_holding [simp]:
  "fits (AList.map_entry k' (add_holding j q) sts) k n = fits sts k n"
  by (auto simp add: fits_def map_of_map_entry add_holding_def split: option.splits)

lemma holdings_in_range_fits: "fits sts k (Suc i) \<Longrightarrow> holdings_in_range sts k i"
  by (auto simp add: fits_def holdings_in_range_def split: option.splits)

lemma fits_mono: "fits sts k n \<Longrightarrow> m \<le> n \<Longrightarrow> fits sts k m"
  by (auto simp add: fits_def split: option.splits)

lemma keys_update_present: "k \<in> fst ` set gs \<Longrightarrow> fst ` set (AList.update k v gs) = fst ` set gs"
  by (simp add: dom_update insert_absorb)

lemma GoodState_price_update [simp]: "(gst :: GoodState)\<lparr>price := x\<rparr> = \<lparr>price = x\<rparr>"
  by (cases gst) simp

lemma settle_loop_ok:
  assumes "fits (agent_states g) b (i + length qs)"
    and "fits (agent_states g) s (i + length qs)"
    and "\<forall>(k, q) \<in> set qs. 0 < q \<longrightarrow> n \<noteq> 0 \<and> k \<in> fst ` set (good_states g)"
  shows "settle_loop b s amt n i qs g =
     (None, g\<lparr>agent_states := hold_loop b s i (map snd qs) (agent_states g),
              good_states := price_loop (amt / real_of_int n) qs (good_states g)\<rparr>)"
  using assms
proof (induction qs arbitrary: i g)
  case Nil
  then show ?case by simp
next
  case (Cons kq rest)
  obtain k q where kq: "kq = (k, q)" by (cases kq)
  let ?sts2 = "AList.map_entry s (add_holding i (- q)) (AList.map_entry b (add_holding i q) (agent_states g))"
  have "fits (agent_states g) b (Suc i)"
    using Cons.prems(1) by (rule fits_mono) simp
  then have rb: "holdings_in_range (agent_states g) b i"
    by (rule holdings_in_range_fits)
  have "fits (agent_states g) s (Suc i)"
    using Cons.prems(2) by (rule fits_mono) simp
  then have rs: "holdings_in_range (AList.map_entry b (add_holding i q) (agent_states g)) s i"
    by (intro holdings_in_range_fits) simp
  show ?case
  proof (cases "0 < q")
    case False
    let ?g2 = "g\<lparr>agent_states := ?sts2\<rparr>"
    have "settle_loop b s amt n (Suc i) rest ?g2 =
      (None, ?g2\<lparr>agent_states := hold_loop b s (Suc i) (map snd rest) (agent_states ?g2),
              good_states := price_loop (amt / real_of_int n) rest (good_states ?g2)\<rparr>)"
      using Cons.prems by (intro Cons.IH) (auto simp add: kq)
    with False rb rs show ?thesis by (simp add: kq Let_def)
  next
    case True
    with Cons.prems(3) have n: "n \<noteq> 0" and kin: "k \<in> fst ` set (good_states g)"
      by (auto simp add: kq)
    from kin obtain gst where gst: "map_of (good_states g) k = Some gst"
      by (metis domD dom_map_of_conv_image_fst)
    let ?g3 = "g\<lparr>agent_states := ?sts2, good_states := AList.update k \<lparr>price = amt / real_of_int n\<rparr> (good_states g)\<rparr>"
    have "settle_loop b s amt n (Suc i) rest ?g3 =
      (None, ?g3\<lparr>agent_states := hold_loop b s (Suc i) (map snd rest) (agent_states ?g3),
              good_states := price_loop (amt / real_of_int n) rest (good_states ?g3)\<rparr>)"
      using Cons.prems kin by (intro Cons.IH) (auto simp add: kq keys_update_present)
    with True rb rs n gst show ?thesis by (simp add: kq Let_def)
  qed
qed

lemma add_quantities_Nil [simp]: "add_quantities [] qs = []"
  by (cases qs) simp_all

lemma upd_from_add_quantities:
  "upd_from i qs hs = take i hs @ add_quantities (drop i hs) qs"
proof (induction qs arbitrary: i hs)
  case Nil
  then show ?case by simp
next
  case (Cons q qs)
  show ?case
  proof (cases "i < length hs")
    case True
    then have d: "drop i hs = hs ! i # drop (Suc i) hs"
      by (simp add: Cons_nth_drop_Suc)
    have "upd_from i (q # qs) hs = upd_from (Suc i) qs (hs[i := hs ! i + q])"
      by simp
    also have "\<dots> = take (Suc i) (hs[i := hs ! i + q])
        @ add_quantities (drop (Suc i) (hs[i := hs ! i + q])) qs"
      by (rule Cons.IH)
    also have "\<dots> = take i hs @ (hs ! i + q) # add_quantities (drop (Suc i) hs) qs"
      using True by (simp add: take_Suc_conv_app_nth)
    also have "\<dots> = take i hs @ add_quantities (drop i hs) (q # qs)"
      by (simp add: d)
    finally show ?thesis .
  next
    case False
    then show ?thesis by (simp add: Cons.IH list_update_beyond)
  qed
qed

lemma add_quantities_inverse: "add_quantities (add_quantities hs qs) (map uminus qs) = hs"
  by (induction hs qs rule: add_quantities.induct) auto

lemma hold_loop_distinct:
  assumes "b \<noteq> s"
  shows "hold_loop b s i qs sts =
    AList.map_entry s (\<lambda>st. st\<lparr>current_holdings := upd_from i (map uminus qs) (current_holdings st)\<rparr>)
      (AList.map_entry b (\<lambda>st. st\<lparr>current_holdings := upd_from i qs (current_holdings st)\<rparr>) sts)"
proof (induction qs arbitrary: i sts)
  case Nil
  then show ?case by (simp add: map_entry_ident)
next
  case (Cons q qs)
  show ?case
    using assms
    by (simp add: Cons.IH map_entry_commute [of b s] map_entry_fuse add_holding_def comp_def)
qed

lemma hold_loop_same: "hold_loop k k i qs sts = sts"
proof (induction qs arbitrary: i sts)
  case Nil
  then show ?case by simp
next
  case (Cons q qs)
  have "AList.map_entry k (add_holding i (- q)) (AList.map_entry k (add_holding i q) sts) = sts"
  proof -
    have "(add_holding i (- q) \<circ> add_holding i q) v = v" for v
      by (cases "i < length (current_holdings v)") (simp_all add: add_holding_def list_update_beyond)
    then show ?thesis
      by (simp only: map_entry_fuse map_entry_ident)
  qed
  then show ?case by (simp add: Cons.IH)
qed

lemma update_as_map:
  "distinct (map fst gs) \<Longrightarrow> k \<in> fst ` set gs \<Longrightarrow>
   AList.update k v gs = map (\<lambda>(k', st). if k' = k then (k', v) else (k', st)) gs"
proof (induction gs)
  case Nil
  then show ?case by simp
next
  case (Cons p gs)
  show ?case
  proof (cases "fst p = k")
    case True
    with Cons.prems(1) have "k \<notin> fst ` set gs" by simp
    then have "\<forall>x \<in> set gs. fst x \<noteq> k" by force
    then have "map (\<lambda>(k', st). if k' = k then (k', v) else (k', st)) gs = gs"
      by (induction gs) auto
    with True show ?thesis by (cases p) simp
  next
    case False
    with Cons show ?thesis by (cases p) auto
  qed
qed

lemma price_loop_effect:
  assumes "distinct (map fst gs)"
    and "\<forall>(k, q) \<in> set qs. 0 < q \<longrightarrow> k \<in> fst ` set gs"
  shows "price_loop p qs gs = price_effect p (map fst (filter (\<lambda>(k, q). 0 < q) qs)) gs"
  using assms
proof (induction qs arbitrary: gs)
  case Nil
  then show ?case by (simp add: price_effect_def case_prod_beta)
next
  case (Cons kq rest)
  obtain k q where kq: "kq = (k, q)" by (cases kq)
  show ?case
  proof (cases "0 < q")
    case False
    with Cons show ?thesis by (simp add: kq)
  next
    case True
    with Cons.prems have kin: "k \<in> fst ` set gs" by (auto simp add: kq)
    let ?gs = "AList.update k \<lparr>price = p\<rparr> gs"
    have ih: "price_loop p rest ?gs = price_effect p (map fst (filter (\<lambda>(k, q). 0 < q) rest)) ?gs"
      using Cons.prems kin by (intro Cons.IH) (auto simp add: distinct_update keys_update_present)
    have upd: "?gs = map (\<lambda>(k', st). if k' = k then (k', \<lparr>price = p\<rparr>) else (k', st)) gs"
      using Cons.prems(1) kin by (rule update_as_map)
    have "price_loop p rest ?gs =
        price_effect p (map fst (filter (\<lambda>(k, q). 0 < q) rest))
          (map (\<lambda>(k', st). if k' = k then (k', \<lparr>price = p\<rparr>) else (k', st)) gs)"
      using ih by (simp only: upd [symmetric])
    moreover have "price_effect p (map fst (filter (\<lambda>(k, q). 0 < q) rest))
          (map (\<lambda>(k', st). if k' = k then (k', \<lparr>price = p\<rparr>) else (k', st)) gs)
        = price_effect p (k # map fst (filter (\<lambda>(k, q). 0 < q) rest)) gs"
      by (induction gs) (simp_all add: price_effect_def split: prod.splits)
    ultimately show ?thesis
      using True by (simp add: kq)
  qed
qed


lemma check_seller_holdings_True_length:
  "check_seller_holdings hs i qs = Inr True \<Longrightarrow> qs = [] \<or> i + length qs \<le> length hs"
proof (induction qs arbitrary: i)
  case Nil
  then show ?case by simp
next
  case (Cons q qs)
  from Cons.prems have "i < length hs" and "check_seller_holdings hs (Suc i) qs = Inr True"
    by (simp_all split: if_splits)
  with Cons.IH [of "Suc i"] show ?case by auto
qed

lemma is_transaction_valid_TrueD:
  assumes "is_transaction_valid g tx = Inr True"
  shows "\<exists>b s. map_of (agent_states g) (buyer_pbk tx) = Some b
           \<and> map_of (agent_states g) (seller_pbk tx) = Some s
           \<and> length (quantities_by_good_pbk tx) \<le> length (current_holdings s)"
proof -
  from assms obtain b where b: "map_of (agent_states g) (buyer_pbk tx) = Some b"
    by (auto simp add: is_transaction_valid_def dict_get_def split: option.splits)
  from assms b obtain s where s: "map_of (agent_states g) (seller_pbk tx) = Some s"
    by (auto simp add: is_transaction_valid_def dict_get_def split: option.splits if_splits)
  from assms b s have "check_seller_holdings (current_holdings s) 0
      (map snd (quantities_by_good_pbk tx)) = Inr True"
    by (simp add: is_transaction_valid_def dict_get_def split: if_splits)
  from check_seller_holdings_True_length [OF this]
  have "length (quantities_by_good_pbk tx) \<le> length (current_holdings s)"
    by auto
  with b s show ?thesis by blast
qed

lemma settle_agents:
  "AList.map_entry (seller_pbk tx) (add_balance (amount tx - share))
     (AList.map_entry (buyer_pbk tx) (sub_balance (amount tx + share))
        (hold_loop (buyer_pbk tx) (seller_pbk tx) 0 (traded tx) sts)) =
   AList.map_entry (seller_pbk tx) (seller_effect tx share)
     (AList.map_entry (buyer_pbk tx) (buyer_effect tx share) sts)"
proof -
  define B where "B = (\<lambda>st :: AgentState. st\<lparr>current_holdings := upd_from 0 (traded tx) (current_holdings st)\<rparr>)"
  define S where "S = (\<lambda>st :: AgentState. st\<lparr>current_holdings :=
      upd_from 0 (map uminus (traded tx)) (current_holdings st)\<rparr>)"
  define b where "b = buyer_pbk tx"
  define s where "s = seller_pbk tx"
  define ad where "ad = sub_balance (amount tx + share)"
  define ac where "ac = add_balance (amount tx - share)"
  have buyer_fun: "ad \<circ> B = buyer_effect tx share"
    by (rule ext)
      (simp add: ad_def B_def buyer_effect_def sub_balance_def upd_from_add_quantities)
  have seller_fun: "ac \<circ> S = seller_effect tx share"
    by (rule ext)
      (simp add: ac_def S_def seller_effect_def add_balance_def upd_from_add_quantities)
  have same_fun: "ac \<circ> ad = seller_effect tx share \<circ> buyer_effect tx share"
    by (rule ext)
      (simp add: ac_def ad_def seller_effect_def buyer_effect_def add_balance_def
        sub_balance_def add_quantities_inverse)
  show ?thesis
  proof (cases "b = s")
    case True
    have "AList.map_entry s ac (AList.map_entry b ad (hold_loop b s 0 (traded tx) sts))
        = AList.map_entry s (ac \<circ> ad) sts"
      by (simp only: True hold_loop_same map_entry_fuse)
    also have "\<dots> = AList.map_entry s (seller_effect tx share)
        (AList.map_entry b (buyer_effect tx share) sts)"
      by (simp only: True same_fun map_entry_fuse)
    finally show ?thesis
      by (simp only: b_def s_def ac_def ad_def)
  next
    case False
    have "hold_loop b s 0 (traded tx) sts = AList.map_entry s S (AList.map_entry b B sts)"
      unfolding S_def B_def using False by (rule hold_loop_distinct)
    then have "AList.map_entry s ac (AList.map_entry b ad (hold_loop b s 0 (traded tx) sts))
        = AList.map_entry s ac (AList.map_entry b ad (AList.map_entry s S (AList.map_entry b B sts)))"
      by (simp only:)
    also have "\<dots> = AList.map_entry s ac (AList.map_entry s S (AList.map_entry b ad (AList.map_entry b B sts)))"
      by (simp only: map_entry_commute [OF False])
    also have "\<dots> = AList.map_entry s (ac \<circ> S) (AList.map_entry b (ad \<circ> B) sts)"
      by (simp only: map_entry_fuse)
    also have "\<dots> = AList.map_entry s (seller_effect tx share)
        (AList.map_entry b (buyer_effect tx share) sts)"
      by (simp only: buyer_fun seller_fun)
    finally show ?thesis
      by (simp only: b_def s_def ac_def ad_def)
  qed
qed

lemma settle_transaction_settled:
  assumes valid: "is_transaction_valid g tx = Inr True"
    and buyer: "map_of (agent_states g) (buyer_pbk tx) = Some b"
    and buyer_len: "length (quantities_by_good_pbk tx) \<le> length (current_holdings b)"
    and goods: "\<forall>(k, q) \<in> set (quantities_by_good_pbk tx). 0 < q \<longrightarrow> k \<in> fst ` set (good_states g)"
    and divisor: "(\<exists>q \<in> set (traded tx). 0 < q) \<longrightarrow> sum_list (traded tx) \<noteq> 0"
    and dict: "distinct (map fst (good_states g))"
  shows "settle_transaction g tx = (None, settled g tx)"
proof -
  from is_transaction_valid_TrueD [OF valid] obtain s where
    s: "map_of (agent_states g) (seller_pbk tx) = Some s"
    and s_len: "length (quantities_by_good_pbk tx) \<le> length (current_holdings s)"
    by blast
  let ?g0 = "g\<lparr>transactions := transactions g @ [tx]\<rparr>"
  let ?n = "sum_list (map snd (quantities_by_good_pbk tx))"
  let ?share = "share_of_tx_fee (tx_fee (configuration g))"
  have fb: "fits (agent_states ?g0) (buyer_pbk tx) (0 + length (quantities_by_good_pbk tx))"
    using buyer buyer_len by (simp add: fits_def)
  have fs: "fits (agent_states ?g0) (seller_pbk tx) (0 + length (quantities_by_good_pbk tx))"
    using s s_len by (simp add: fits_def)
  have gk: "\<forall>(k, q) \<in> set (quantities_by_good_pbk tx).
      0 < q \<longrightarrow> ?n \<noteq> 0 \<and> k \<in> fst ` set (good_states ?g0)"
    using goods divisor by (force simp add: traded_def)
  have loop: "settle_loop (buyer_pbk tx) (seller_pbk tx) (amount tx) ?n 0 (quantities_by_good_pbk tx) ?g0 =
     (None, ?g0\<lparr>agent_states := hold_loop (buyer_pbk tx) (seller_pbk tx) 0
                        (map snd (quantities_by_good_pbk tx)) (agent_states ?g0),
              good_states := price_loop (amount tx / real_of_int ?n) (quantities_by_good_pbk tx)
                        (good_states ?g0)\<rparr>)"
    by (rule settle_loop_ok [OF fb fs gk])
  have prices: "price_loop (amount tx / real_of_int ?n) (quantities_by_good_pbk tx) (good_states g)
      = price_effect (amount tx / real_of_int (sum_list (traded tx))) (priced_goods tx) (good_states g)"
    unfolding priced_goods_def traded_def using dict goods by (rule price_loop_effect)
  have agents: "AList.map_entry (seller_pbk tx) (add_balance (amount tx - ?share))
     (AList.map_entry (buyer_pbk tx) (sub_balance (amount tx + ?share))
        (hold_loop (buyer_pbk tx) (seller_pbk tx) 0 (map snd (quantities_by_good_pbk tx))
           (agent_states g))) =
   AList.map_entry (seller_pbk tx) (seller_effect tx ?share)
     (AList.map_entry (buyer_pbk tx) (buyer_effect tx ?share) (agent_states g))"
    using settle_agents [of tx ?share "agent_states g"] by (simp only: traded_def)
  have "settle_transaction g tx =
     (None, g\<lparr>transactions := transactions g @ [tx],
         agent_states := AList.map_entry (seller_pbk tx) (add_balance (amount tx - ?share))
           (AList.map_entry (buyer_pbk tx) (sub_balance (amount tx + ?share))
             (hold_loop (buyer_pbk tx) (seller_pbk tx) 0 (map snd (quantities_by_good_pbk tx))
               (agent_states g))),
         good_states := price_loop (amount tx / real_of_int ?n) (quantities_by_good_pbk tx)
           (good_states g)\<rparr>)"
    by (simp add: settle_transaction_def valid loop Let_def)
  also have "\<dots> = (None, settled g tx)"
    by (simp only: agents prices settled_def Let_def)
  finally show ?thesis .
qed

text \<open>
  The doctest of \<open>settle_transaction\<close>, on two agents and two goods: \<open>a0\<close> buys one
  unit of \<open>g0\<close> from \<open>a1\<close> for 15 and is left with 4.5, \<open>a1\<close> with 34.5.
\<close>

lemma settle_transaction_doctest:
  "is_transaction_valid ex_game ex_tx = Inr True
   \<and> settle_transaction ex_game ex_tx = (None, ex_game_settled)"
proof -
  have valid: "is_transaction_valid ex_game ex_tx = Inr True"
    by (simp add: is_transaction_valid_def ex_game_def ex_tx_def ex_config_def dict_get_def
        buyer_pbk_def seller_pbk_def share_of_tx_fee_one)
  have buyer: "map_of (agent_states ex_game) (buyer_pbk ex_tx) =
     Some \<lparr>balance = 20, utility_params = [20, 40], current_holdings = [1, 1]\<rparr>"
    by (simp add: ex_game_def ex_tx_def buyer_pbk_def)
  have buyer_len: "length (quantities_by_good_pbk ex_tx) \<le>
     length (current_holdings \<lparr>balance = 20, utility_params = [20, 40], current_holdings = [1, 1]\<rparr>)"
    by (simp add: ex_tx_def)
  have goods: "\<forall>(k, q) \<in> set (quantities_by_good_pbk ex_tx).
      0 < q \<longrightarrow> k \<in> fst ` set (good_states ex_game)"
    by (simp add: ex_tx_def ex_game_def)
  have divisor: "(\<exists>q \<in> set (traded ex_tx). 0 < q) \<longrightarrow> sum_list (traded ex_tx) \<noteq> 0"
    by (simp add: traded_def ex_tx_def)
  have dict: "distinct (map fst (good_states ex_game))"
    by (simp add: ex_game_def)
  have "settled ex_game ex_tx = ex_game_settled"
    by (simp add: settled_def ex_game_settled_def ex_game_def ex_tx_def ex_config_def
        share_of_tx_fee_one buyer_pbk_def seller_pbk_def buyer_effect_def seller_effect_def
        traded_def priced_goods_def price_effect_def)
  with settle_transaction_settled [OF valid buyer buyer_len goods divisor dict] valid
  show ?thesis by simp
qed

text \<open>
  C1. The specification asks that a settlement appends the transaction to the log, moves
  the traded quantities from the seller to the buyer, moves the money and the
  fee shares, and sets the price of every good of positive quantity to the
  amount divided by the sum of the positive quantities. In the worked game \<open>a0\<close>
  buys two units of \<open>g0\<close> from \<open>a1\<close> and hands back one unit of \<open>g1\<close>, for 15. The
  transaction is valid and settles, and \<open>g0\<close> is priced at \<open>15 / (2 - 1) = 15\<close>:
  \<open>nb_instances_traded\<close> is the sum of all the quantities, the negative one
  included. The specification's divisor gives \<open>15 / 2\<close>, and so does the price update of
  \<open>WorldState\<close> on the same transaction, which counts the units of positive
  quantity.
\<close>

theorem settle_transaction_price_divisor:
  "is_transaction_valid ex_game ex_tx_mixed = Inr True
   \<and> fst (settle_transaction ex_game ex_tx_mixed) = None
   \<and> map_of (good_states (snd (settle_transaction ex_game ex_tx_mixed))) ''g0'' = Some \<lparr>price = 15\<rparr>
   \<and> amount ex_tx_mixed / real_of_int (claimed_units ex_tx_mixed) = 15 / 2
   \<and> update_on_initial_accept remdups (\<lambda>is_accepted p model. (is_accepted, p) # model)
        ex_world_state ex_tx_mixed
      = Inr \<lparr>opponent_states = [], good_price_models = [(''g0'', [(True, 15 / 2)]), (''g1'', [])]\<rparr>"
proof -
  have valid: "is_transaction_valid ex_game ex_tx_mixed = Inr True"
    by (simp add: is_transaction_valid_def ex_game_def ex_tx_mixed_def ex_config_def dict_get_def
        buyer_pbk_def seller_pbk_def share_of_tx_fee_one)
  have "settle_transaction ex_game ex_tx_mixed =
    (None, ex_game\<lparr>transactions := [ex_tx_mixed],
       agent_states :=
       [(''a0'', \<lparr>balance = 9 / 2, utility_params = [20, 40], current_holdings = [3, 0]\<rparr>),
        (''a1'', \<lparr>balance = 69 / 2, utility_params = [10, 50], current_holdings = [0, 2]\<rparr>)],
       good_states := [(''g0'', \<lparr>price = 15\<rparr>), (''g1'', \<lparr>price = 0\<rparr>)]\<rparr>)"
    by (simp add: settle_transaction_def valid)
       (simp add: ex_game_def ex_tx_mixed_def ex_config_def buyer_pbk_def seller_pbk_def
        share_of_tx_fee_one holdings_in_range_def add_holding_def add_balance_def
        sub_balance_def Let_def)
  moreover have "amount ex_tx_mixed / real_of_int (claimed_units ex_tx_mixed) = 15 / 2"
    by (simp add: claimed_units_def traded_def ex_tx_mixed_def)
  moreover have "update_on_initial_accept remdups (\<lambda>is_accepted p model. (is_accepted, p) # model)
        ex_world_state ex_tx_mixed
      = Inr \<lparr>opponent_states = [], good_price_models = [(''g0'', [(True, 15 / 2)]), (''g1'', [])]\<rparr>"
  proof -
    have r: "py_round (15 / 2) 1 = 15 / 2"
      by (simp add: py_round_def Let_def)
    have units: "bought_units ex_tx_mixed = [''g0'', ''g0'']"
      by (simp add: bought_units_def ex_tx_mixed_def numeral_2_eq_2)
    have price: "amount ex_tx_mixed = 15"
      by (simp add: ex_tx_mixed_def)
    show ?thesis
      by (simp add: update_on_initial_accept_def from_transaction_update_price_def
          units price ex_world_state_def update_price_def r del: One_nat_def)
  qed
  ultimately show ?thesis using valid by simp
qed

text \<open>
  With more units handed back than bought the same divisor records a negative
  price, which \<open>GoodState\<close> asserts no price to be: \<open>a0\<close> buys one unit of \<open>g0\<close> and
  hands back three of \<open>g1\<close>.
\<close>

lemma settle_negative_price:
  "is_transaction_valid ex_game ex_tx_handback = Inr True
   \<and> fst (settle_transaction ex_game ex_tx_handback) = None
   \<and> map_of (good_states (snd (settle_transaction ex_game ex_tx_handback))) ''g0''
       = Some \<lparr>price = - (15 / 2)\<rparr>
   \<and> GoodState_init (- (15 / 2)) = Inl AssertionError"
proof -
  have valid: "is_transaction_valid ex_game ex_tx_handback = Inr True"
    by (simp add: is_transaction_valid_def ex_game_def ex_tx_handback_def ex_config_def dict_get_def
        buyer_pbk_def seller_pbk_def share_of_tx_fee_one)
  have "settle_transaction ex_game ex_tx_handback =
    (None, ex_game\<lparr>transactions := [ex_tx_handback],
       agent_states :=
       [(''a0'', \<lparr>balance = 9 / 2, utility_params = [20, 40], current_holdings = [2, - 2]\<rparr>),
        (''a1'', \<lparr>balance = 69 / 2, utility_params = [10, 50], current_holdings = [1, 4]\<rparr>)],
       good_states := [(''g0'', \<lparr>price = - (15 / 2)\<rparr>), (''g1'', \<lparr>price = 0\<rparr>)]\<rparr>)"
    by (simp add: settle_transaction_def valid)
       (simp add: ex_game_def ex_tx_handback_def ex_config_def buyer_pbk_def seller_pbk_def
        share_of_tx_fee_one holdings_in_range_def add_holding_def add_balance_def
        sub_balance_def Let_def)
  moreover have "GoodState_init (- (15 / 2)) = Inl AssertionError"
    by (simp add: GoodState_init_def)
  ultimately show ?thesis using valid by simp
qed

text \<open>
  When the quantities sum to zero and one is positive, the division fails after
  the log and the holdings have been written.
\<close>

lemma settle_zero_sum_leaves_partial_effects:
  "is_transaction_valid ex_game ex_tx_zero_sum = Inr True
   \<and> settle_transaction ex_game ex_tx_zero_sum =
     (Some ZeroDivisionError,
      ex_game\<lparr>transactions := [ex_tx_zero_sum],
       agent_states :=
       [(''a0'', \<lparr>balance = 20, utility_params = [20, 40], current_holdings = [2, 1]\<rparr>),
        (''a1'', \<lparr>balance = 20, utility_params = [10, 50], current_holdings = [1, 1]\<rparr>)]\<rparr>)"
proof -
  have valid: "is_transaction_valid ex_game ex_tx_zero_sum = Inr True"
    by (simp add: is_transaction_valid_def ex_game_def ex_tx_zero_sum_def ex_config_def dict_get_def
        buyer_pbk_def seller_pbk_def share_of_tx_fee_one)
  have "settle_transaction ex_game ex_tx_zero_sum =
     (Some ZeroDivisionError,
      ex_game\<lparr>transactions := [ex_tx_zero_sum],
       agent_states :=
       [(''a0'', \<lparr>balance = 20, utility_params = [20, 40], current_holdings = [2, 1]\<rparr>),
        (''a1'', \<lparr>balance = 20, utility_params = [10, 50], current_holdings = [1, 1]\<rparr>)]\<rparr>)"
    by (simp add: settle_transaction_def valid)
       (simp add: ex_game_def ex_tx_zero_sum_def ex_config_def buyer_pbk_def seller_pbk_def
        holdings_in_range_def add_holding_def Let_def)
  with valid show ?thesis by simp
qed

subsection \<open>Conservation\<close>

lemma sum_list_map_entry:
  fixes f :: "'v \<Rightarrow> 'a :: ab_group_add"
  assumes "map_of al k = Some v"
  shows "sum_list (map (\<lambda>(k, x). f x) (AList.map_entry k h al))
       = sum_list (map (\<lambda>(k, x). f x) al) - f v + f (h v)"
  using assms
proof (induction al)
  case Nil
  then show ?case by simp
next
  case (Cons p al)
  then show ?case by (cases p) (auto simp add: algebra_simps)
qed

lemma length_add_quantities [simp]: "length (add_quantities hs qs) = length hs"
  by (induction hs qs rule: add_quantities.induct) auto

lemma nth_add_quantities:
  "j < length hs \<Longrightarrow>
   add_quantities hs qs ! j = hs ! j + (if j < length qs then qs ! j else 0)"
proof (induction hs qs arbitrary: j rule: add_quantities.induct)
  case (1 hs)
  then show ?case by simp
next
  case (2 q qs)
  then show ?case by simp
next
  case (3 h hs q qs)
  then show ?case by (cases j) auto
qed

lemma holding_at_buyer_effect:
  "holding_at j (buyer_effect tx share st) =
     holding_at j st + (if j < length (current_holdings st) \<and> j < length (traded tx) then traded tx ! j else 0)"
  by (simp add: holding_at_def buyer_effect_def nth_add_quantities)

lemma holding_at_seller_effect:
  "holding_at j (seller_effect tx share st) =
     holding_at j st - (if j < length (current_holdings st) \<and> j < length (traded tx) then traded tx ! j else 0)"
  by (simp add: holding_at_def seller_effect_def nth_add_quantities)

lemma balance_effects [simp]:
  "balance (buyer_effect tx share st) = balance st - (amount tx + share)"
  "balance (seller_effect tx share st) = balance st + (amount tx - share)"
  by (simp_all add: buyer_effect_def seller_effect_def)

lemma length_holdings_effects [simp]:
  "length (current_holdings (buyer_effect tx share st)) = length (current_holdings st)"
  "length (current_holdings (seller_effect tx share st)) = length (current_holdings st)"
  by (simp_all add: buyer_effect_def seller_effect_def)

lemma settled_total_balance:
  assumes b: "map_of (agent_states g) (buyer_pbk tx) = Some b"
    and s: "map_of (agent_states g) (seller_pbk tx) = Some s"
  shows "total_balance (settled g tx) =
     total_balance g - 2 * share_of_tx_fee (tx_fee (configuration g))"
proof -
  let ?share = "share_of_tx_fee (tx_fee (configuration g))"
  let ?sts1 = "AList.map_entry (buyer_pbk tx) (buyer_effect tx ?share) (agent_states g)"
  define s1 where "s1 = (if seller_pbk tx = buyer_pbk tx then buyer_effect tx ?share b else s)"
  have s1: "map_of ?sts1 (seller_pbk tx) = Some s1"
    using b s by (simp add: map_of_map_entry s1_def)
  have s1_bal: "balance s1 = (if seller_pbk tx = buyer_pbk tx then balance b - (amount tx + ?share) else balance s)"
    by (simp add: s1_def)
  have "total_balance (settled g tx) =
      sum_list (map (\<lambda>(k, x). balance x) ?sts1) - balance s1 + balance (seller_effect tx ?share s1)"
    by (simp add: total_balance_def settled_def Let_def sum_list_map_entry [OF s1])
  also have "sum_list (map (\<lambda>(k, x). balance x) ?sts1) =
      total_balance g - balance b + balance (buyer_effect tx ?share b)"
    by (simp add: total_balance_def sum_list_map_entry [OF b])
  finally show ?thesis by simp
qed

lemma settled_total_holdings:
  assumes b: "map_of (agent_states g) (buyer_pbk tx) = Some b"
    and s: "map_of (agent_states g) (seller_pbk tx) = Some s"
    and b_len: "length (quantities_by_good_pbk tx) \<le> length (current_holdings b)"
    and s_len: "length (quantities_by_good_pbk tx) \<le> length (current_holdings s)"
  shows "total_holdings (settled g tx) j = total_holdings g j"
proof -
  let ?share = "share_of_tx_fee (tx_fee (configuration g))"
  let ?sts1 = "AList.map_entry (buyer_pbk tx) (buyer_effect tx ?share) (agent_states g)"
  let ?d = "if j < length (traded tx) then traded tx ! j else 0"
  define s1 where "s1 = (if seller_pbk tx = buyer_pbk tx then buyer_effect tx ?share b else s)"
  have s1: "map_of ?sts1 (seller_pbk tx) = Some s1"
    using b s by (simp add: map_of_map_entry s1_def)
  have s1_len: "length (current_holdings s1) = length (current_holdings s)"
    using b s by (auto simp add: s1_def)
  have bd: "holding_at j (buyer_effect tx ?share b) = holding_at j b + ?d"
    using b_len by (auto simp add: holding_at_buyer_effect traded_def)
  have sd: "holding_at j (seller_effect tx ?share s1) = holding_at j s1 - ?d"
    using s_len s1_len by (auto simp add: holding_at_seller_effect traded_def)
  have "total_holdings (settled g tx) j =
      sum_list (map (\<lambda>(k, x). holding_at j x) ?sts1) - holding_at j s1
        + holding_at j (seller_effect tx ?share s1)"
    by (simp add: total_holdings_def settled_def Let_def sum_list_map_entry [OF s1])
  also have "sum_list (map (\<lambda>(k, x). holding_at j x) ?sts1) =
      total_holdings g j - holding_at j b + holding_at j (buyer_effect tx ?share b)"
    by (simp add: total_holdings_def sum_list_map_entry [OF b])
  finally show ?thesis by (simp add: bd sd)
qed


text \<open>
  C6, as the code has it. A settlement that succeeds takes twice the fee share
  out of the agents' money, the share being half the fee rounded to 2 decimals;
  this is the fee itself whenever the rounding changes nothing. At every
  position the holdings of all agents together are unchanged.
\<close>

theorem settle_conserves:
  assumes valid: "is_transaction_valid g tx = Inr True"
    and buyer: "map_of (agent_states g) (buyer_pbk tx) = Some b"
    and buyer_len: "length (quantities_by_good_pbk tx) \<le> length (current_holdings b)"
    and goods: "\<forall>(k, q) \<in> set (quantities_by_good_pbk tx). 0 < q \<longrightarrow> k \<in> fst ` set (good_states g)"
    and divisor: "(\<exists>q \<in> set (traded tx). 0 < q) \<longrightarrow> sum_list (traded tx) \<noteq> 0"
    and dict: "distinct (map fst (good_states g))"
  shows "settle_transaction g tx = (None, settled g tx)
    \<and> total_balance (settled g tx) =
        total_balance g - 2 * share_of_tx_fee (tx_fee (configuration g))
    \<and> (2 * share_of_tx_fee (tx_fee (configuration g)) = tx_fee (configuration g) \<longrightarrow>
         total_balance (settled g tx) = total_balance g - tx_fee (configuration g))
    \<and> (\<forall>j. total_holdings (settled g tx) j = total_holdings g j)"
proof -
  from is_transaction_valid_TrueD [OF valid] buyer obtain s where
    s: "map_of (agent_states g) (seller_pbk tx) = Some s"
    and s_len: "length (quantities_by_good_pbk tx) \<le> length (current_holdings s)"
    by auto
  have "settle_transaction g tx = (None, settled g tx)"
    using valid buyer buyer_len goods divisor dict by (rule settle_transaction_settled)
  moreover have "total_balance (settled g tx) =
        total_balance g - 2 * share_of_tx_fee (tx_fee (configuration g))"
    using buyer s by (rule settled_total_balance)
  moreover have "total_holdings (settled g tx) j = total_holdings g j" for j
    using buyer s buyer_len s_len by (rule settled_total_holdings)
  ultimately show ?thesis by simp
qed

theorem settle_conserves_witness:
  "settle_transaction ex_game ex_tx = (None, ex_game_settled)
   \<and> total_balance ex_game = 40 \<and> total_balance ex_game_settled = 39
   \<and> total_holdings ex_game 0 = 3 \<and> total_holdings ex_game_settled 0 = 3"
proof -
  have valid: "is_transaction_valid ex_game ex_tx = Inr True"
    by (simp add: is_transaction_valid_def ex_game_def ex_tx_def ex_config_def dict_get_def
        buyer_pbk_def seller_pbk_def share_of_tx_fee_one)
  have buyer: "map_of (agent_states ex_game) (buyer_pbk ex_tx) =
     Some \<lparr>balance = 20, utility_params = [20, 40], current_holdings = [1, 1]\<rparr>"
    by (simp add: ex_game_def ex_tx_def buyer_pbk_def)
  have buyer_len: "length (quantities_by_good_pbk ex_tx) \<le>
     length (current_holdings \<lparr>balance = 20, utility_params = [20, 40], current_holdings = [1, 1]\<rparr>)"
    by (simp add: ex_tx_def)
  have goods: "\<forall>(k, q) \<in> set (quantities_by_good_pbk ex_tx).
      0 < q \<longrightarrow> k \<in> fst ` set (good_states ex_game)"
    by (simp add: ex_tx_def ex_game_def)
  have divisor: "(\<exists>q \<in> set (traded ex_tx). 0 < q) \<longrightarrow> sum_list (traded ex_tx) \<noteq> 0"
    by (simp add: traded_def ex_tx_def)
  have dict: "distinct (map fst (good_states ex_game))"
    by (simp add: ex_game_def)
  have settled: "settled ex_game ex_tx = ex_game_settled"
    by (simp add: settled_def ex_game_settled_def ex_game_def ex_tx_def ex_config_def
        share_of_tx_fee_one buyer_pbk_def seller_pbk_def buyer_effect_def seller_effect_def
        traded_def priced_goods_def price_effect_def)
  have fee: "share_of_tx_fee (tx_fee (configuration ex_game)) = 1 / 2"
    by (simp add: ex_game_def ex_config_def share_of_tx_fee_one)
  have before: "total_balance ex_game = 40" "total_holdings ex_game 0 = 3"
    by (simp_all add: total_balance_def total_holdings_def holding_at_def ex_game_def)
  from settle_conserves [OF valid buyer buyer_len goods divisor dict]
  show ?thesis
    by (simp add: settled fee before)
qed

text \<open>
  With a fee of 0.004 each side pays \<open>round(0.002, 2) = 0\<close>: the money of all
  agents is 40 before and after the settlement, not \<open>40 - 0.004\<close>.
\<close>

theorem settle_fee_not_conserved_counterexample:
  "Game_init (ex_config\<lparr>tx_fee := 4 / 1000\<rparr>) ex_init = Inr ex_game_small_fee
   \<and> is_transaction_valid ex_game_small_fee ex_tx = Inr True
   \<and> fst (settle_transaction ex_game_small_fee ex_tx) = None
   \<and> total_balance ex_game_small_fee = 40
   \<and> tx_fee (configuration ex_game_small_fee) = 4 / 1000
   \<and> total_balance (snd (settle_transaction ex_game_small_fee ex_tx)) = 40
   \<and> total_balance (snd (settle_transaction ex_game_small_fee ex_tx)) \<noteq>
       total_balance ex_game_small_fee - tx_fee (configuration ex_game_small_fee)"
proof -
  have share: "share_of_tx_fee (4 / 1000) = 0" "share_of_tx_fee (1 / 250) = 0"
    by (simp_all add: share_of_tx_fee_def py_round_def Let_def)
  have init: "Game_init (ex_config\<lparr>tx_fee := 4 / 1000\<rparr>) ex_init = Inr ex_game_small_fee"
    by (simp add: Game_init_def ex_config_def ex_init_def ex_game_def ex_game_small_fee_def
        agent_pbks_def good_pbks_def AgentState_init_def DEFAULT_PRICE_def upt_conv_Cons)
  have valid: "is_transaction_valid ex_game_small_fee ex_tx = Inr True"
    by (simp add: is_transaction_valid_def ex_game_small_fee_def ex_game_def ex_tx_def
        ex_config_def dict_get_def buyer_pbk_def seller_pbk_def share)
  have settle: "settle_transaction ex_game_small_fee ex_tx =
    (None, ex_game_small_fee\<lparr>transactions := [ex_tx],
       agent_states :=
       [(''a0'', \<lparr>balance = 5, utility_params = [20, 40], current_holdings = [2, 1]\<rparr>),
        (''a1'', \<lparr>balance = 35, utility_params = [10, 50], current_holdings = [1, 1]\<rparr>)],
       good_states := [(''g0'', \<lparr>price = 15\<rparr>), (''g1'', \<lparr>price = 0\<rparr>)]\<rparr>)"
    by (simp add: settle_transaction_def valid)
       (simp add: ex_game_small_fee_def ex_game_def ex_tx_def ex_config_def buyer_pbk_def
        seller_pbk_def share holdings_in_range_def add_holding_def add_balance_def
        sub_balance_def Let_def)
  have "total_balance ex_game_small_fee = 40"
    by (simp add: total_balance_def ex_game_small_fee_def ex_game_def)
  moreover have "tx_fee (configuration ex_game_small_fee) = 4 / 1000"
    by (simp add: ex_game_small_fee_def ex_config_def)
  moreover have "total_balance (snd (settle_transaction ex_game_small_fee ex_tx)) = 40"
    by (simp add: settle total_balance_def)
  ultimately show ?thesis using init valid settle by simp
qed

subsection \<open>Round trip through the dictionary\<close>

lemma Transaction_dict_roundtrip [simp]: "Transaction_from_dict (Transaction_to_dict tx) = tx"
  by (simp add: Transaction_to_dict_def)

lemma GameConfiguration_dict_roundtrip:
  "config_check_consistency c \<Longrightarrow>
   GameConfiguration_from_dict (GameConfiguration_to_dict c) = Inr c"
  by (cases c) (simp add: GameConfiguration_to_dict_def GameConfiguration_init_def Let_def)

lemma GameInitialization_dict_roundtrip:
  "init_check_consistency i = Inr () \<Longrightarrow>
   GameInitialization_from_dict (GameInitialization_to_dict i) = Inr i"
  by (cases i) (simp add: GameInitialization_to_dict_def GameInitialization_init_def Let_def)

lemma settle_loop_frame:
  "settle_loop b s a n i qs g = (r, g') \<Longrightarrow>
   configuration g' = configuration g \<and> initialization g' = initialization g \<and>
   transactions g' = transactions g \<and> initial_agent_states g' = initial_agent_states g"
proof (induction b s a n i qs g rule: settle_loop.induct)
  case (1 buyer seller amt nb good_id g)
  then show ?case by simp
next
  case (2 buyer seller amt nb good_id good_pbk quantity rest g)
  show ?case
  proof (cases "holdings_in_range (agent_states g) buyer good_id")
    case False
    with "2.prems" show ?thesis by auto
  next
    case hb: True
    let ?g1 = "g\<lparr>agent_states := AList.map_entry buyer (add_holding good_id quantity) (agent_states g)\<rparr>"
    show ?thesis
    proof (cases "holdings_in_range (agent_states ?g1) seller good_id")
      case False
      with hb "2.prems" show ?thesis by auto
    next
      case hs: True
      let ?g2 = "?g1\<lparr>agent_states := AList.map_entry seller (add_holding good_id (- quantity)) (agent_states ?g1)\<rparr>"
      show ?thesis
      proof (cases "0 < quantity")
        case False
        with hb hs "2.prems" "2.IH"(2) [OF _ refl _ refl, of ] show ?thesis
          by (auto simp add: Let_def)
      next
        case pos: True
        show ?thesis
        proof (cases "nb = 0")
          case True
          with hb hs pos "2.prems" show ?thesis by (auto simp add: Let_def)
        next
          case nz: False
          show ?thesis
          proof (cases "map_of (good_states ?g2) good_pbk")
            case None
            with hb hs pos nz "2.prems" show ?thesis by (auto simp add: Let_def)
          next
            case (Some good_state)
            with hb hs pos nz "2.prems" "2.IH"(1) [OF _ refl _ refl _ _ Some] show ?thesis
              by (auto simp add: Let_def)
          qed
        qed
      qed
    qed
  qed
qed


lemma settle_transaction_frame:
  assumes "settle_transaction g tx = (None, g')"
  shows "configuration g' = configuration g \<and> initialization g' = initialization g \<and>
   transactions g' = transactions g @ [tx] \<and> initial_agent_states g' = initial_agent_states g"
proof -
  let ?g0 = "g\<lparr>transactions := transactions g @ [tx]\<rparr>"
  obtain r g1 where loop: "settle_loop (buyer_pbk tx) (seller_pbk tx) (amount tx)
      (sum_list (map snd (quantities_by_good_pbk tx))) 0 (quantities_by_good_pbk tx) ?g0 = (r, g1)"
    by (cases "settle_loop (buyer_pbk tx) (seller_pbk tx) (amount tx)
      (sum_list (map snd (quantities_by_good_pbk tx))) 0 (quantities_by_good_pbk tx) ?g0")
  from settle_loop_frame [OF loop]
  have frame: "configuration g1 = configuration g" "initialization g1 = initialization g"
    "transactions g1 = transactions g @ [tx]" "initial_agent_states g1 = initial_agent_states g"
    by simp_all
  from assms loop have "\<exists>sts. g' = g1\<lparr>agent_states := sts\<rparr>"
    by (auto simp add: settle_transaction_def Let_def split: sum.splits bool.splits option.splits if_splits)
  with frame show ?thesis by auto
qed

lemma settle_all_log:
  "settle_all g txs = Inr g' \<Longrightarrow>
   configuration g' = configuration g \<and> initialization g' = initialization g \<and>
   transactions g' = transactions g @ txs"
proof (induction txs arbitrary: g)
  case Nil
  then show ?case by simp
next
  case (Cons tx txs)
  from Cons.prems obtain g1 where step: "settle_transaction g tx = (None, g1)"
    and rest: "settle_all g1 txs = Inr g'"
    by (auto split: prod.splits option.splits)
  from settle_transaction_frame [OF step] Cons.IH [OF rest] show ?case by simp
qed

lemma replay_settle_all: "replay g (map Transaction_to_dict txs) = settle_all g txs"
  by (induction txs arbitrary: g) (auto split: prod.splits option.splits)

lemma Game_init_fields:
  "Game_init c i = Inr g \<Longrightarrow> configuration g = c \<and> initialization g = i \<and> transactions g = []"
  by (auto simp add: Game_init_def split: sum.splits)

lemma Game_eq_refl: "Game_eq g g"
  by (simp add: Game_eq_def GameConfiguration_eq_def dict_eq_def)

text \<open>
  C5. Take a game built by the constructor from a consistent configuration and
  initialization, and settle any sequence of transactions on it, each settlement
  succeeding. Then \<open>from_dict\<close> of its \<open>to_dict\<close> replays the log without error
  and returns a game equal to it under \<open>__eq__\<close>; it is in fact the same game,
  agent and good states included. (The agent states hold copies of the
  endowment rows, so settling never changes what \<open>to_dict\<close> writes for the
  initialization.)
\<close>

theorem Game_dict_roundtrip:
  assumes cc: "config_check_consistency c"
    and ic: "init_check_consistency i = Inr ()"
    and init: "Game_init c i = Inr g0"
    and run: "settle_all g0 txs = Inr g"
  shows "Game_from_dict (Game_to_dict g) = Inr g \<and> Game_eq g g"
proof -
  from Game_init_fields [OF init] settle_all_log [OF run]
  have fields: "configuration g = c" "initialization g = i" "transactions g = txs"
    by simp_all
  have "Game_from_dict (Game_to_dict g) = replay g0 (map Transaction_to_dict txs)"
    by (simp add: Game_to_dict_def fields GameConfiguration_dict_roundtrip [OF cc]
        GameInitialization_dict_roundtrip [OF ic] init)
  also have "\<dots> = Inr g"
    by (simp add: replay_settle_all run)
  finally show ?thesis by (simp add: Game_eq_refl)
qed

theorem Game_dict_roundtrip_witness:
  "Game_init ex_config ex_init = Inr ex_game
   \<and> settle_all ex_game [ex_tx] = Inr ex_game_settled
   \<and> Game_from_dict (Game_to_dict ex_game_settled) = Inr ex_game_settled
   \<and> Game_eq ex_game_settled ex_game_settled"
proof -
  have cc: "config_check_consistency ex_config"
    by (simp add: config_check_consistency_def ex_config_def agent_pbks_def agent_names_def
        good_pbks_def good_names_def)
  have ic: "init_check_consistency ex_init = Inr ()"
    by (simp add: init_check_consistency_def ex_init_def)
  have init: "Game_init ex_config ex_init = Inr ex_game"
    by (rule ex_game_constructed)
  have valid: "is_transaction_valid ex_game ex_tx = Inr True"
    by (simp add: is_transaction_valid_def ex_game_def ex_tx_def ex_config_def dict_get_def
        buyer_pbk_def seller_pbk_def share_of_tx_fee_one)
  have "settle_transaction ex_game ex_tx = (None, ex_game_settled)"
    by (simp add: settle_transaction_def valid)
       (simp add: ex_game_settled_def ex_game_def ex_tx_def ex_config_def buyer_pbk_def
        seller_pbk_def share_of_tx_fee_one holdings_in_range_def add_holding_def add_balance_def
        sub_balance_def Let_def)
  then have run: "settle_all ex_game [ex_tx] = Inr ex_game_settled"
    by simp
  from Game_dict_roundtrip [OF cc ic init run] init run show ?thesis by simp
qed

section \<open>Properties of the negotiating agent\<close>

subsection \<open>Profitability\<close>

lemma check_goods_loop_all:
  "i + length qs \<le> length hs \<Longrightarrow>
   check_goods_loop hs i qs r = Inr (r \<and> (\<forall>j < length qs. qs ! j \<le> hs ! (i + j)))"
proof (induction qs arbitrary: i r)
  case Nil
  then show ?case by simp
next
  case (Cons q qs)
  then have ih: "check_goods_loop hs (Suc i) qs r' =
      Inr (r' \<and> (\<forall>j < length qs. qs ! j \<le> hs ! (Suc i + j)))" for r'
    by simp
  from Cons.prems show ?case
    by (auto simp add: ih All_less_Suc2)
qed

lemma update_holdings_upd_from:
  "i + length qs \<le> length hs \<Longrightarrow>
   update_holdings is_buyer i qs hs =
     Inr (upd_from i (if is_buyer then qs else map uminus qs) hs)"
proof (induction qs arbitrary: i hs)
  case Nil
  then show ?case by simp
next
  case (Cons q qs)
  let ?hs = "hs[i := hs ! i + (if is_buyer then q else - q)]"
  from Cons.prems have "Suc i + length qs \<le> length ?hs" by simp
  then have "update_holdings is_buyer (Suc i) qs ?hs =
      Inr (upd_from (Suc i) (if is_buyer then qs else map uminus qs) ?hs)"
    by (rule Cons.IH)
  with Cons.prems show ?case by simp
qed

lemma AgentState_update_applied:
  assumes "length (quantities_by_good_pbk tx) \<le> length (current_holdings st)"
  shows "AgentState_update st tx fee = Inr (applied tx fee st)"
  using assms
  by (simp add: AgentState_update_def applied_def buyer_effect_def seller_effect_def traded_def
      update_holdings_upd_from upd_from_add_quantities Let_def)

lemma check_transaction_is_consistent_as_claimed:
  assumes "length (quantities_by_good_pbk tx) \<le> length (current_holdings st)"
  shows "check_transaction_is_consistent st tx fee = Inr (consistent_as_claimed st tx fee)"
  using assms
  by (simp add: check_transaction_is_consistent_def consistent_as_claimed_def
      check_goods_loop_all)

lemma is_profitable_transaction_eq:
  assumes locked: "state_after_locks (game_instance self) (is_seller dialogue) = Inr locked"
    and fit: "length (quantities_by_good_pbk tx) \<le> length (current_holdings locked)"
    and u0: "logarithmic_utility env (utility_params locked) (current_holdings locked) = Inr u0"
    and u1: "logarithmic_utility env (utility_params locked)
               (current_holdings (applied tx (tx_fee (game_configuration (game_instance self))) locked))
             = Inr u1"
  shows "is_profitable_transaction env self tx dialogue =
     Inr (consistent_as_claimed locked tx (tx_fee (game_configuration (game_instance self))) \<and>
          0 \<le> (u1 + balance (applied tx (tx_fee (game_configuration (game_instance self))) locked))
               - (u0 + balance locked))"
proof -
  let ?fee = "tx_fee (game_configuration (game_instance self))"
  have params: "utility_params (applied tx ?fee locked) = utility_params locked"
    by (simp add: applied_def buyer_effect_def seller_effect_def)
  have diff: "get_score_diff_from_transaction (logarithmic_utility env) locked tx ?fee =
      Inr ((u1 + balance (applied tx ?fee locked)) - (u0 + balance locked))"
    by (simp add: get_score_diff_from_transaction_def get_score_def u0 u1 params
        AgentState_update_applied [OF fit])
  show ?thesis
    by (cases "consistent_as_claimed locked tx ?fee")
      (simp_all add: is_profitable_transaction_def locked diff
        check_transaction_is_consistent_as_claimed [OF fit])
qed


lemma ex_fee_share: "share_of_tx_fee (tx_fee ex_config) = 1 / 2"
  by (simp add: ex_config_def share_of_tx_fee_one)


subsection \<open>The belief state's price update\<close>

lemma bought_units_Nil_iff:
  "bought_units tx = [] \<longleftrightarrow> (\<forall>(k, q) \<in> set (quantities_by_good_pbk tx). q \<le> 0)"
  by (auto simp add: bought_units_def split: if_splits)

lemma update_prices_no_zero_division:
  "update_prices update ws ks p is_accepted \<noteq> Inl ZeroDivisionError"
  by (induction ks arbitrary: ws)
    (auto simp add: update_price_def Let_def split: option.splits sum.splits)

lemma from_transaction_update_price_zero_division:
  "from_transaction_update_price order update ws tx is_accepted = Inl ZeroDivisionError
   \<longleftrightarrow> (\<forall>(k, q) \<in> set (quantities_by_good_pbk tx). q \<le> 0)"
proof (cases "bought_units tx = []")
  case True
  then show ?thesis
    by (simp add: from_transaction_update_price_def bought_units_Nil_iff [symmetric])
next
  case False
  then show ?thesis
    by (simp add: from_transaction_update_price_def bought_units_Nil_iff [symmetric]
        update_prices_no_zero_division Let_def)
qed

text \<open>
  C10. The price update divides the amount by the number of units bought. It
  fails with ZeroDivisionError exactly on the transactions without a positive
  quantity, for a declined proposal and for an initial accept alike, whatever
  the belief state.
\<close>

theorem price_update_fails_without_positive_quantity:
  "(update_on_declined_propose order update ws tx = Inl ZeroDivisionError
     \<longleftrightarrow> (\<forall>(k, q) \<in> set (quantities_by_good_pbk tx). q \<le> 0))
   \<and> (update_on_initial_accept order update ws tx = Inl ZeroDivisionError
     \<longleftrightarrow> (\<forall>(k, q) \<in> set (quantities_by_good_pbk tx). q \<le> 0))"
  by (simp add: update_on_declined_propose_def update_on_initial_accept_def
      from_transaction_update_price_zero_division)

theorem price_update_fails_without_positive_quantity_witness:
  "update_on_declined_propose (set_order ex_env) (pm_update ex_env) ex_world_state
     ex_tx_nothing_for_money = Inl ZeroDivisionError
   \<and> update_on_initial_accept (set_order ex_env) (pm_update ex_env) ex_world_state
     ex_tx_nothing_for_money = Inl ZeroDivisionError"
proof -
  have none: "\<forall>(k, q) \<in> set (quantities_by_good_pbk ex_tx_nothing_for_money). q \<le> 0"
    by (simp add: ex_tx_nothing_for_money_def)
  note both = price_update_fails_without_positive_quantity
    [of "set_order ex_env" "pm_update ex_env" ex_world_state ex_tx_nothing_for_money]
  from both [THEN conjunct1, THEN iffD2, OF none] both [THEN conjunct2, THEN iffD2, OF none]
  show ?thesis by simp
qed

subsection \<open>Handling a proposal\<close>

lemma ex_self_locked:
  "state_after_locks (game_instance ex_self) (is_seller ex_dialogue) =
     Inr \<lparr>balance = 20, utility_params = [20, 40], current_holdings = [1, 1]\<rparr>"
  by (simp add: state_after_locks_def ex_self_def ex_lock_manager_def locks_for_role_def)

lemma ex_nothing_for_money_unprofitable:
  "is_profitable_transaction ex_env ex_self ex_tx_nothing_for_money ex_dialogue = Inr False"
proof -
  let ?st = "\<lparr>balance = 20, utility_params = [20, 40], current_holdings = [1, 1]\<rparr>"
  have fee: "tx_fee (game_configuration (game_instance ex_self)) = tx_fee ex_config"
    by (simp add: ex_self_def)
  have fit: "length (quantities_by_good_pbk ex_tx_nothing_for_money) \<le> length (current_holdings ?st)"
    by (simp add: ex_tx_nothing_for_money_def)
  have u0: "logarithmic_utility ex_env (utility_params ?st) (current_holdings ?st) = Inr 60"
    by (simp add: ex_env_def)
  have a: "applied ex_tx_nothing_for_money (tx_fee ex_config) ?st =
      \<lparr>balance = 9 / 2, utility_params = [20, 40], current_holdings = [1, 1]\<rparr>"
    by (simp add: applied_def ex_tx_nothing_for_money_def buyer_effect_def traded_def ex_fee_share)
  have u1: "logarithmic_utility ex_env (utility_params ?st)
      (current_holdings (applied ex_tx_nothing_for_money
         (tx_fee (game_configuration (game_instance ex_self))) ?st)) = Inr 60"
    by (simp add: fee a) (simp add: ex_env_def)
  from is_profitable_transaction_eq [OF ex_self_locked fit u0 u1]
  show ?thesis by (simp add: fee a)
qed

text \<open>
  C9. When the transaction built from the first proposal is evaluated as not
  profitable, \<open>on_propose\<close> answers with a Decline that carries the next message
  id, the dialogue id and the proposal's id as target, and leaves the whole
  state of the behaviour as it was: the agent's balance and holdings, the
  opponents' states and the price models of its belief state, the locks and the
  pending entries. The handler is given no game: the ledger is out of its
  reach. (The evaluation works on the state that \<open>apply\<close> copies.)
\<close>

theorem on_propose_unprofitable_declines:
  assumes "proposals propose = proposal # others"
    and "is_profitable_transaction env self
           (from_proposal proposal
              (generate_transaction_id env (public_key self) (destination propose)
                 (dialogue_id propose) (is_seller dialogue))
              (\<not> is_seller dialogue) (destination propose) (public_key self))
           dialogue = Inr False"
  shows "on_propose env self propose dialogue =
     Inr (Decline (msg_id propose + 1) (dialogue_id propose) (destination propose)
            (msg_id propose), self)"
  using assms by (simp add: on_propose_def Let_def)

theorem on_propose_unprofitable_declines_witness:
  "on_propose ex_env ex_self ex_propose_nothing ex_dialogue = Inr (Decline 2 7 ''a1'' 1, ex_self)"
proof -
  have p: "proposals ex_propose_nothing =
      \<lparr>proposal_price = 15, proposal_quantities = [(''g0'', 0), (''g1'', 0)]\<rparr> # []"
    by (simp add: ex_propose_nothing_def)
  have tx: "from_proposal \<lparr>proposal_price = 15, proposal_quantities = [(''g0'', 0), (''g1'', 0)]\<rparr>
              (generate_transaction_id ex_env (public_key ex_self) (destination ex_propose_nothing)
                 (dialogue_id ex_propose_nothing) (is_seller ex_dialogue))
              (\<not> is_seller ex_dialogue) (destination ex_propose_nothing) (public_key ex_self)
            = ex_tx_nothing_for_money"
    by (simp add: from_proposal_def ex_env_def ex_self_def ex_propose_nothing_def ex_dialogue_def
        ex_tx_nothing_for_money_def)
  have unprofitable: "is_profitable_transaction ex_env ex_self
           (from_proposal \<lparr>proposal_price = 15, proposal_quantities = [(''g0'', 0), (''g1'', 0)]\<rparr>
              (generate_transaction_id ex_env (public_key ex_self) (destination ex_propose_nothing)
                 (dialogue_id ex_propose_nothing) (is_seller ex_dialogue))
              (\<not> is_seller ex_dialogue) (destination ex_propose_nothing) (public_key ex_self))
           ex_dialogue = Inr False"
    by (simp only: tx ex_nothing_for_money_unprofitable)
  from on_propose_unprofitable_declines [OF p unprofitable]
  show ?thesis by (simp add: ex_propose_nothing_def)
qed

subsection \<open>The price observation in closed form\<close>

lemma set_bought_units: "set (bought_units tx) = set (priced_goods tx)"
proof -
  have "set (concat (map (\<lambda>(k, q). if 0 < q then replicate (nat q) k else []) qs))
      = set (map fst (filter (\<lambda>(k, q). 0 < q) qs))" for qs :: "(string \<times> int) list"
    by (induction qs) (auto split: if_splits)
  then show ?thesis by (simp add: bought_units_def priced_goods_def)
qed

lemma length_bought_units: "int (length (bought_units tx)) = claimed_units tx"
proof -
  have "int (length (concat (map (\<lambda>(k, q). if 0 < q then replicate (nat q) k else []) qs)))
      = sum_list (filter (\<lambda>q. 0 < q) (map snd qs))" for qs :: "(string \<times> int) list"
    by (induction qs) (auto split: if_splits)
  then show ?thesis by (simp add: bought_units_def claimed_units_def traded_def)
qed

lemma real_length_bought_units: "real (length (bought_units tx)) = real_of_int (claimed_units tx)"
  by (simp add: length_bought_units [symmetric])

lemma update_as_map_of:
  "distinct (map fst al) \<Longrightarrow> map_of al k = Some v \<Longrightarrow>
   AList.update k (f v) al = map (\<lambda>(k', v'). if k' = k then (k', f v') else (k', v')) al"
proof (induction al)
  case Nil
  then show ?case by simp
next
  case (Cons p al)
  show ?case
  proof (cases "fst p = k")
    case True
    with Cons.prems(1) have "k \<notin> fst ` set al" by simp
    then have "\<forall>x \<in> set al. fst x \<noteq> k" by force
    then have "map (\<lambda>(k', v'). if k' = k then (k', f v') else (k', v')) al = al"
      by (induction al) auto
    with True Cons.prems(2) show ?thesis by (cases p) simp
  next
    case False
    with Cons show ?thesis by (cases p) simp
  qed
qed

lemma update_prices_closed:
  assumes "distinct ks"
    and "set ks \<subseteq> fst ` set (good_price_models ws)"
    and "distinct (map fst (good_price_models ws))"
  shows "update_prices update ws ks p is_accepted =
     Inr (ws\<lparr>good_price_models :=
               map (\<lambda>(k, m). if k \<in> set ks then (k, update is_accepted (py_round p 1) m)
                              else (k, m))
                 (good_price_models ws)\<rparr>)"
  using assms
proof (induction ks arbitrary: ws)
  case Nil
  have "map (\<lambda>(k, m). (k, m)) (good_price_models ws) = good_price_models ws"
    by (simp add: case_prod_beta)
  then show ?case by simp
next
  case (Cons k ks)
  let ?u = "update is_accepted (py_round p 1)"
  let ?models = "good_price_models ws"
  from Cons.prems(2) obtain m where m: "map_of ?models k = Some m"
    by (auto simp add: image_iff dest: weak_map_of_SomeI)
  let ?step = "map (\<lambda>(k', m'). if k' = k then (k', ?u m') else (k', m')) ?models"
  let ?ws1 = "ws\<lparr>good_price_models := ?step\<rparr>"
  have upd: "AList.update k (?u m) ?models = ?step"
    using Cons.prems(3) m by (rule update_as_map_of)
  have one: "update_price update ws k p is_accepted = Inr ?ws1"
    by (simp add: update_price_def m upd Let_def del: One_nat_def)
  have keys: "map fst ?step = map fst ?models"
    by (induction ?models) (auto split: prod.splits)
  have "update_prices update ?ws1 ks p is_accepted =
     Inr (?ws1\<lparr>good_price_models :=
               map (\<lambda>(k, m). if k \<in> set ks then (k, ?u m) else (k, m))
                 (good_price_models ?ws1)\<rparr>)"
  proof (rule Cons.IH)
    have k1: "map fst (good_price_models ?ws1) = map fst ?models"
      using keys by simp
    show "distinct ks" using Cons.prems(1) by simp
    from arg_cong [OF k1, of set]
    have "fst ` set (good_price_models ?ws1) = fst ` set ?models"
      by (simp only: set_map)
    then show "set ks \<subseteq> fst ` set (good_price_models ?ws1)"
      using Cons.prems(2) by simp
    show "distinct (map fst (good_price_models ?ws1))"
      using Cons.prems(3) by (simp only: k1)
  qed
  moreover have "map (\<lambda>(k, m). if k \<in> set ks then (k, ?u m) else (k, m)) ?step
      = map (\<lambda>(k', m). if k' \<in> set (k # ks) then (k', ?u m) else (k', m)) ?models"
    using Cons.prems(1) by (induction ?models) (auto split: prod.splits)
  ultimately show ?case by (simp add: one del: One_nat_def)
qed

lemma from_transaction_update_price_observed:
  assumes order: "is_set_order order"
    and dict: "distinct (map fst (good_price_models ws))"
    and some: "\<exists>(k, q) \<in> set (quantities_by_good_pbk tx). 0 < q"
    and known: "\<forall>(k, q) \<in> set (quantities_by_good_pbk tx).
                  0 < q \<longrightarrow> k \<in> fst ` set (good_price_models ws)"
  shows "from_transaction_update_price order update ws tx is_accepted =
     Inr (price_observed update ws tx is_accepted)"
proof -
  from some have nonempty: "bought_units tx \<noteq> []"
    by (force simp add: bought_units_Nil_iff)
  from order have d: "distinct (order (bought_units tx))"
    and s: "set (order (bought_units tx)) = set (priced_goods tx)"
    by (simp_all add: is_set_order_def set_bought_units)
  from known have sub: "set (order (bought_units tx)) \<subseteq> fst ` set (good_price_models ws)"
    by (auto simp add: s priced_goods_def)
  from update_prices_closed [OF d sub dict] nonempty show ?thesis
    by (simp add: from_transaction_update_price_def Let_def price_observed_def s
        real_length_bought_units del: One_nat_def)
qed

subsection \<open>Handling an accept\<close>

lemma pending_lookup_remove [simp]: "pending_lookup (pending_remove p label msg) label msg = None"
  by (simp add: pending_lookup_def pending_remove_def map_of_map_entry delete_conv
      split: option.splits)

lemma with_lock_manager_simps [simp]:
  "lock_manager (game_instance (with_lock_manager self lm)) = lm"
  "world_state (game_instance (with_lock_manager self lm)) = world_state (game_instance self)"
  "agent_state (game_instance (with_lock_manager self lm)) = agent_state (game_instance self)"
  "game_configuration (game_instance (with_lock_manager self lm)) =
     game_configuration (game_instance self)"
  "is_world_modeling (game_instance (with_lock_manager self lm)) =
     is_world_modeling (game_instance self)"
  "controller_pbk (game_instance (with_lock_manager self lm)) = controller_pbk (game_instance self)"
  "public_key (with_lock_manager self lm) = public_key self"
  "with_lock_manager (with_lock_manager self lm) lm' = with_lock_manager self lm'"
  by (simp_all add: with_lock_manager_def)

lemma with_world_state_simps [simp]:
  "lock_manager (game_instance (with_world_state self ws)) = lock_manager (game_instance self)"
  "world_state (game_instance (with_world_state self ws)) = ws"
  "agent_state (game_instance (with_world_state self ws)) = agent_state (game_instance self)"
  "game_configuration (game_instance (with_world_state self ws)) =
     game_configuration (game_instance self)"
  "is_world_modeling (game_instance (with_world_state self ws)) =
     is_world_modeling (game_instance self)"
  "controller_pbk (game_instance (with_world_state self ws)) = controller_pbk (game_instance self)"
  "public_key (with_world_state self ws) = public_key self"
  "with_world_state (with_lock_manager self lm) ws = with_lock_manager (with_world_state self ws) lm"
  "with_world_state self (world_state (game_instance self)) = self"
  by (simp_all add: with_lock_manager_def with_world_state_def)

lemma is_profitable_transaction_locks:
  assumes "locks lm = locks (lock_manager (game_instance self))"
  shows "is_profitable_transaction env (with_lock_manager self lm) tx dialogue =
         is_profitable_transaction env self tx dialogue"
  using assms
  by (simp add: is_profitable_transaction_def state_after_locks_def locks_for_role_def
      cong: sum.case_cong bool.case_cong)

lemma WorldState_update_unknown [simp]:
  "WorldState_update order update ''update_on_accept'' ws tx = Inl AttributeError"
  "WorldState_update order update ''update_on_decline'' ws tx = Inl AttributeError"
  by (simp_all add: WorldState_update_def)

lemma WorldState_update_known:
  "WorldState_update order update ''update_on_declined_propose'' ws tx =
     update_on_declined_propose order update ws tx"
  "WorldState_update order update ''update_on_initial_accept'' ws tx =
     update_on_initial_accept order update ws tx"
  by (simp_all add: WorldState_update_def)

lemma on_accept_match:
  assumes "pending_lookup (pending_tx_acceptances (lock_manager (game_instance self)))
             (dialogue_label dialogue) (target accept) = Some tx"
  shows "on_accept env self accept dialogue =
     (Inr (Single (ByteMessage (msg_id accept + 1) (dialogue_id accept)
                     (controller_pbk (game_instance self)) (serialize env tx))),
      with_lock_manager self
        ((lock_manager (game_instance self))
           \<lparr>pending_tx_acceptances :=
              pending_remove (pending_tx_acceptances (lock_manager (game_instance self)))
                (dialogue_label dialogue) (target accept)\<rparr>))"
  using assms
  by (simp add: on_accept_def on_match_accept_def pop_pending_acceptances_def)

lemma on_accept_initial_unprofitable:
  assumes "pending_lookup (pending_tx_acceptances (lock_manager (game_instance self)))
             (dialogue_label dialogue) (target accept) = None"
    and "pending_lookup (pending_tx_proposals (lock_manager (game_instance self)))
             (dialogue_label dialogue) (target accept) = Some tx"
    and "is_profitable_transaction env self tx dialogue = Inr False"
  shows "on_accept env self accept dialogue =
     (Inr (Single (Decline (msg_id accept + 1) (dialogue_id accept) (destination accept)
                     (msg_id accept))),
      with_lock_manager self
        ((lock_manager (game_instance self))
           \<lparr>pending_tx_proposals :=
              pending_remove (pending_tx_proposals (lock_manager (game_instance self)))
                (dialogue_label dialogue) (target accept)\<rparr>))"
  using assms
  by (simp add: on_accept_def on_initial_accept_def pop_pending_proposal_def Let_def
      is_profitable_transaction_locks)

text \<open>
  An initial Accept of a proposal that is still profitable, received by an
  agent that keeps no belief state: the lock is added and the response has two
  items, the serialized transaction for the controller and the Accept for the
  counterparty.
\<close>

lemma on_accept_initial_profitable:
  assumes none: "pending_lookup (pending_tx_acceptances (lock_manager (game_instance self)))
             (dialogue_label dialogue) (target accept) = None"
    and pending: "pending_lookup (pending_tx_proposals (lock_manager (game_instance self)))
             (dialogue_label dialogue) (target accept) = Some tx"
    and profitable: "is_profitable_transaction env self tx dialogue = Inr True"
    and no_belief: "\<not> is_world_modeling (game_instance self)"
    and fresh: "transaction_id tx \<notin> fst ` set (locks (lock_manager (game_instance self)))"
  shows "on_accept env self accept dialogue =
     (Inr (Several [ByteMessage (msg_id accept + 1) (dialogue_id accept)
                      (controller_pbk (game_instance self)) (serialize env tx),
                    Accept (msg_id accept + 1) (dialogue_id accept) (destination accept)
                      (msg_id accept)]),
      with_lock_manager self
        ((lock_manager (game_instance self))
           \<lparr>pending_tx_proposals :=
              pending_remove (pending_tx_proposals (lock_manager (game_instance self)))
                (dialogue_label dialogue) (target accept),
            locks := locks (lock_manager (game_instance self))
                       @ [(transaction_id tx, is_seller dialogue, tx)]\<rparr>))"
  using assms
  by (simp add: on_accept_def on_initial_accept_def pop_pending_proposal_def Let_def
      is_profitable_transaction_locks add_lock_def)


lemma ex_cheap_profitable:
  "is_profitable_transaction ex_env ex_self ex_tx_cheap ex_dialogue = Inr True"
proof -
  let ?st = "\<lparr>balance = 20, utility_params = [20, 40], current_holdings = [1, 1]\<rparr>"
  have fee: "tx_fee (game_configuration (game_instance ex_self)) = tx_fee ex_config"
    by (simp add: ex_self_def)
  have fit: "length (quantities_by_good_pbk ex_tx_cheap) \<le> length (current_holdings ?st)"
    by (simp add: ex_tx_cheap_def)
  have u0: "logarithmic_utility ex_env (utility_params ?st) (current_holdings ?st) = Inr 60"
    by (simp add: ex_env_def)
  have a: "applied ex_tx_cheap (tx_fee ex_config) ?st =
      \<lparr>balance = 9 / 2, utility_params = [20, 40], current_holdings = [2, 1]\<rparr>"
    by (simp add: applied_def ex_tx_cheap_def buyer_effect_def traded_def ex_fee_share)
  have u1: "logarithmic_utility ex_env (utility_params ?st)
      (current_holdings (applied ex_tx_cheap
         (tx_fee (game_configuration (game_instance ex_self))) ?st)) = Inr 80"
    by (simp add: fee a) (simp add: ex_env_def)
  have c: "consistent_as_claimed ?st ex_tx_cheap (tx_fee ex_config)"
    by (simp add: consistent_as_claimed_def ex_tx_cheap_def ex_fee_share)
  from is_profitable_transaction_eq [OF ex_self_locked fit u0 u1]
  show ?thesis by (simp add: fee a c)
qed

lemma ex_observed_accept:
  "update_on_initial_accept (set_order ex_env) (pm_update ex_env) ex_world_state ex_tx_cheap =
     Inr \<lparr>opponent_states = [], good_price_models = [(''g0'', [(True, 15)]), (''g1'', [])]\<rparr>"
  by (simp add: update_on_initial_accept_def from_transaction_update_price_def bought_units_def
      ex_tx_cheap_def ex_env_def ex_world_state_def update_price_def py_round_def Let_def)

lemma ex_observed_decline:
  "update_on_declined_propose (set_order ex_env) (pm_update ex_env) ex_world_state ex_tx_cheap =
     Inr \<lparr>opponent_states = [], good_price_models = [(''g0'', [(False, 15)]), (''g1'', [])]\<rparr>"
  by (simp add: update_on_declined_propose_def from_transaction_update_price_def bought_units_def
      ex_tx_cheap_def ex_env_def ex_world_state_def update_price_def py_round_def Let_def)

lemma ex_self_proposed_profitable:
  "is_profitable_transaction ex_env ex_self_proposed ex_tx_cheap ex_dialogue = Inr True"
proof -
  have l: "locks (ex_lock_manager\<lparr>pending_tx_proposals := [((7, ''a1'', ''a0''), [(2, ex_tx_cheap)])]\<rparr>)
      = locks (lock_manager (game_instance ex_self))"
    by (simp add: ex_self_def ex_lock_manager_def)
  show ?thesis
    by (simp only: ex_self_proposed_def is_profitable_transaction_locks [OF l]
        ex_cheap_profitable)
qed

lemma ex_self_proposed_nothing_unprofitable:
  "is_profitable_transaction ex_env ex_self_proposed_nothing ex_tx_nothing_for_money ex_dialogue
     = Inr False"
proof -
  have l: "locks (ex_lock_manager\<lparr>pending_tx_proposals :=
          [((7, ''a1'', ''a0''), [(2, ex_tx_nothing_for_money)])]\<rparr>)
      = locks (lock_manager (game_instance ex_self))"
    by (simp add: ex_self_def ex_lock_manager_def)
  show ?thesis
    by (simp only: ex_self_proposed_nothing_def is_profitable_transaction_locks [OF l]
        ex_nothing_for_money_unprofitable)
qed

lemma ex_self_popped:
  "with_lock_manager ex_self_proposed
     ((lock_manager (game_instance ex_self_proposed))
        \<lparr>pending_tx_proposals :=
           pending_remove (pending_tx_proposals (lock_manager (game_instance ex_self_proposed)))
             (dialogue_label ex_dialogue) 2\<rparr>) = ex_self_popped"
  "with_lock_manager ex_self_proposed_bundle
     ((lock_manager (game_instance ex_self_proposed_bundle))
        \<lparr>pending_tx_proposals :=
           pending_remove
             (pending_tx_proposals (lock_manager (game_instance ex_self_proposed_bundle)))
             (dialogue_label ex_dialogue) 2\<rparr>) = ex_self_popped"
  by (simp_all add: ex_self_proposed_def ex_self_proposed_bundle_def ex_self_popped_def
      ex_lock_manager_def ex_dialogue_def pending_remove_def)


text \<open>
  The same agent without a belief state answers as the specification says.
\<close>

lemma on_accept_profitable_without_belief_state:
  "on_accept ex_env ex_self_proposed_no_belief ex_accept ex_dialogue =
   (Inr (Several [ByteMessage 4 7 ''controller'' ''a0_a1_b'', Accept 4 7 ''a1'' 3]),
    with_lock_manager ex_self_proposed_no_belief
      (ex_lock_manager\<lparr>pending_tx_proposals := [((7, ''a1'', ''a0''), [])],
                        locks := [(''a0_a1_b'', False, ex_tx_cheap)]\<rparr>))"
proof -
  let ?self = ex_self_proposed_no_belief
  have none: "pending_lookup (pending_tx_acceptances (lock_manager (game_instance ?self)))
       (dialogue_label ex_dialogue) (target ex_accept) = None"
    and pending: "pending_lookup (pending_tx_proposals (lock_manager (game_instance ?self)))
       (dialogue_label ex_dialogue) (target ex_accept) = Some ex_tx_cheap"
    and fresh: "transaction_id ex_tx_cheap \<notin> fst ` set (locks (lock_manager (game_instance ?self)))"
    by (simp_all add: ex_self_proposed_no_belief_def ex_self_proposed_def with_lock_manager_def
        ex_lock_manager_def ex_dialogue_def ex_accept_def pending_lookup_def)
  have no_belief: "\<not> is_world_modeling (game_instance ?self)"
    by (simp add: ex_self_proposed_no_belief_def)
  have "is_profitable_transaction ex_env ?self ex_tx_cheap ex_dialogue
      = is_profitable_transaction ex_env ex_self_proposed ex_tx_cheap ex_dialogue"
    by (simp add: ex_self_proposed_no_belief_def is_profitable_transaction_def
        state_after_locks_def cong: sum.case_cong bool.case_cong)
  then have profitable: "is_profitable_transaction ex_env ?self ex_tx_cheap ex_dialogue = Inr True"
    by (simp only: ex_self_proposed_profitable)
  show ?thesis
    by (simp only: on_accept_initial_profitable [OF none pending profitable no_belief fresh])
       (simp add: ex_self_proposed_no_belief_def ex_self_proposed_def with_lock_manager_def
        ex_self_def ex_lock_manager_def ex_dialogue_def ex_accept_def ex_env_def ex_tx_cheap_def
        pending_remove_def)
qed

subsection \<open>Handling a decline\<close>

lemma delete_absent: "k \<notin> fst ` set al \<Longrightarrow> AList.delete k al = al"
  by (induction al) auto

text \<open>
  A Decline received by an agent that keeps a belief state, its target a
  pending proposal: the handler pops the proposal and calls \<open>update_on_decline\<close>,
  which \<open>WorldState\<close> does not define. It raises AttributeError before any price
  model is fed and before the lock of the dialogue is released.
\<close>

lemma on_decline_world_modeling_pending:
  assumes belief: "is_world_modeling (game_instance self)"
    and pending: "pending_lookup (pending_tx_proposals (lock_manager (game_instance self)))
             (dialogue_label dialogue) (target decline) = Some tx"
  shows "on_decline env self decline dialogue =
     (Some AttributeError,
      with_lock_manager self
        ((lock_manager (game_instance self))
           \<lparr>pending_tx_proposals :=
              pending_remove (pending_tx_proposals (lock_manager (game_instance self)))
                (dialogue_label dialogue) (target decline)\<rparr>))"
  using assms
  by (simp add: on_decline_def pop_pending_proposal_def)

text \<open>
  Any other Decline releases the lock of the dialogue, if there is one, and
  changes nothing else.
\<close>

lemma on_decline_releases_lock:
  assumes "\<not> is_world_modeling (game_instance self)
           \<or> pending_lookup (pending_tx_proposals (lock_manager (game_instance self)))
               (dialogue_label dialogue) (target decline) = None"
  shows "on_decline env self decline dialogue =
     (None,
      with_lock_manager self
        (pop_lock (lock_manager (game_instance self))
           (generate_transaction_id env (public_key self) (destination decline)
              (dialogue_id decline) (is_seller dialogue))))"
proof -
  have same: "with_lock_manager self
        (pop_lock (lock_manager (game_instance self)) tx_id) = self"
    if "tx_id \<notin> fst ` set (locks (lock_manager (game_instance self)))" for tx_id
    using that by (simp add: with_lock_manager_def pop_lock_def delete_absent)
  from assms show ?thesis
    by (auto simp add: on_decline_def Let_def same)
qed

text \<open>
  What the updates of \<open>WorldState\<close> do when they are called: take a transaction
  with a positive quantity, all of whose goods of positive quantity have a price
  model. Observing it feeds every such model the amount divided by the number
  of units bought, rounded to 1 decimal, with the outcome flag, and leaves the
  other models as they are.
\<close>

lemma WorldState_updates_observe:
  assumes order: "is_set_order order"
    and dict: "distinct (map fst (good_price_models ws))"
    and some: "\<exists>(k, q) \<in> set (quantities_by_good_pbk tx). 0 < q"
    and known: "\<forall>(k, q) \<in> set (quantities_by_good_pbk tx).
                  0 < q \<longrightarrow> k \<in> fst ` set (good_price_models ws)"
  shows "update_on_declined_propose order update ws tx = Inr (price_observed update ws tx False)"
    and "update_on_initial_accept order update ws tx = Inr (price_observed update ws tx True)"
  unfolding update_on_declined_propose_def update_on_initial_accept_def
  using assms by (rule from_transaction_update_price_observed)+

lemma ex_observed_bundle:
  "update_on_declined_propose (set_order ex_env) (pm_update ex_env) ex_world_state ex_tx_bundle =
     Inr \<lparr>opponent_states = [],
          good_price_models = [(''g0'', [(False, 33 / 10)]), (''g1'', [(False, 33 / 10)])]\<rparr>"
proof -
  have r: "py_round (10 / 3) 1 = 33 / 10"
    by (simp add: py_round_def Let_def)
  have units: "bought_units ex_tx_bundle = [''g0'', ''g0'', ''g1'']"
    by (simp add: bought_units_def ex_tx_bundle_def numeral_2_eq_2)
  have price: "amount ex_tx_bundle = 10"
    by (simp add: ex_tx_bundle_def)
  show ?thesis
    by (simp add: update_on_declined_propose_def from_transaction_update_price_def
        units price ex_env_def ex_world_state_def update_price_def r del: One_nat_def)
qed

text \<open>
  C8. The specification asks that a Decline whose target is a pending proposal feeds the
  proposal's transaction to the price update of the belief state as a rejected
  observation. The agent \<open>a0\<close> keeps a belief state and has proposed to buy two
  units of \<open>g0\<close> and one of \<open>g1\<close> for 10 in message 2 of its dialogue with \<open>a1\<close>,
  and \<open>a1\<close> declines. The handler pops the proposal and raises AttributeError at
  its call of \<open>update_on_decline\<close>: the belief state it leaves is the one it had,
  where \<open>update_on_declined_propose\<close>, the update that \<open>WorldState\<close> does define,
  would have fed the price models of both goods the rejected price
  \<open>round(10 / 3, 1) = 3.3\<close>.
\<close>

theorem on_decline_raises_AttributeError:
  "is_world_modeling (game_instance ex_self_proposed_bundle)
   \<and> pending_lookup (pending_tx_proposals (lock_manager (game_instance ex_self_proposed_bundle)))
       (dialogue_label ex_dialogue) (target ex_decline) = Some ex_tx_bundle
   \<and> on_decline ex_env ex_self_proposed_bundle ex_decline ex_dialogue
       = (Some AttributeError, ex_self_popped)
   \<and> world_state (game_instance ex_self_popped) = ex_world_state
   \<and> update_on_declined_propose (set_order ex_env) (pm_update ex_env) ex_world_state ex_tx_bundle
       = Inr \<lparr>opponent_states = [],
              good_price_models = [(''g0'', [(False, 33 / 10)]), (''g1'', [(False, 33 / 10)])]\<rparr>"
proof -
  have belief: "is_world_modeling (game_instance ex_self_proposed_bundle)"
    by (simp add: ex_self_proposed_bundle_def) (simp add: ex_self_def)
  have pending: "pending_lookup
       (pending_tx_proposals (lock_manager (game_instance ex_self_proposed_bundle)))
       (dialogue_label ex_dialogue) (target ex_decline) = Some ex_tx_bundle"
    by (simp add: ex_self_proposed_bundle_def ex_lock_manager_def ex_dialogue_def ex_decline_def
        pending_lookup_def)
  have t: "target ex_decline = 2"
    by (simp add: ex_decline_def)
  have raised: "on_decline ex_env ex_self_proposed_bundle ex_decline ex_dialogue
      = (Some AttributeError, ex_self_popped)"
    using on_decline_world_modeling_pending [OF belief pending, of ex_env]
    by (simp only: t ex_self_popped)
  have left: "world_state (game_instance ex_self_popped) = ex_world_state"
    by (simp add: ex_self_popped_def) (simp add: ex_self_def)
  from belief pending raised left ex_observed_bundle show ?thesis by simp
qed

end
